theory Spec2Isabelle
  imports Main "HOL-Library.Log_Nat"
begin

section \<open>The Ecosystem API: a shallow embedding of \<^verbatim>\<open>main.py\<close>\<close>

text \<open>
  The service is a stateless proxy in front of a railway API and a mapping API. Two of its
  handlers transform what they fetch: \<^verbatim>\<open>get_train_routes\<close> and \<^verbatim>\<open>get_car_routes\<close>.
  Both are embedded here as functions from the request and the upstream to either an error
  or the list of responses.
\<close>

subsection \<open>Python strings\<close>

text \<open>
  A Python \<^verbatim>\<open>str\<close> is a sequence of Unicode code points. Two literals of the source
  (the euro sign and the arrow) lie outside the 8-bit characters of HOL, so a string is a
  list of code points; \<open>lit\<close> reads an ASCII literal of the source.
\<close>

type_synonym pystr = "nat list"

definition lit :: "string \<Rightarrow> pystr" where
  "lit s = map of_char s"

text \<open>
  The standard module \<^verbatim>\<open>re\<close> and the builtin \<^verbatim>\<open>float\<close> classify characters with the Unicode
  database of the interpreter. Within ASCII the classes are fixed and written out below;
  beyond ASCII the tables are a parameter: \<open>decimal c\<close> is the value of a character of
  category Nd (which \<^verbatim>\<open>\d\<close> matches and \<^verbatim>\<open>float\<close> reads as a digit), \<open>alnum c\<close> says that
  \<^verbatim>\<open>str.isalnum\<close> holds (these, the decimals and the underscore are the word characters of
  \<^verbatim>\<open>\b\<close>).
\<close>

record unicode_db =
  decimal :: "nat \<Rightarrow> nat option"
  alnum :: "nat \<Rightarrow> bool"

definition is_ascii :: "nat \<Rightarrow> bool" where
  "is_ascii c = (c < 128)"

text \<open>The class \<^verbatim>\<open>[A-Z]\<close>.\<close>

definition is_upper :: "nat \<Rightarrow> bool" where
  "is_upper c = (65 \<le> c \<and> c \<le> 90)"

definition is_lower :: "nat \<Rightarrow> bool" where
  "is_lower c = (97 \<le> c \<and> c \<le> 122)"

text \<open>The value of a decimal digit, \<open>None\<close> for every other character.\<close>

definition digit_value :: "unicode_db \<Rightarrow> nat \<Rightarrow> nat option" where
  "digit_value U c =
     (if 48 \<le> c \<and> c \<le> 57 then Some (c - 48)
      else if is_ascii c then None
      else decimal U c)"

text \<open>The class \<^verbatim>\<open>\d\<close>.\<close>

definition is_digit :: "unicode_db \<Rightarrow> nat \<Rightarrow> bool" where
  "is_digit U c = (digit_value U c \<noteq> None)"

text \<open>The word characters of \<^verbatim>\<open>\b\<close>: alphanumerics and the underscore.\<close>

definition is_word :: "unicode_db \<Rightarrow> nat \<Rightarrow> bool" where
  "is_word U c =
     (is_digit U c \<or> is_upper c \<or> is_lower c \<or> c = 95 \<or> (\<not> is_ascii c \<and> alnum U c))"

text \<open>The database that knows no character beyond ASCII, for concrete runs.\<close>

definition ascii_db :: unicode_db where
  "ascii_db = \<lparr>decimal = (\<lambda>c. None), alnum = (\<lambda>c. False)\<rparr>"

text \<open>
  \<^verbatim>\<open>a or b\<close> on an optional string \<open>a\<close>: \<^verbatim>\<open>None\<close> and the empty string are falsy, so \<open>b\<close>
  is the value then.
\<close>

definition str_or :: "pystr option \<Rightarrow> pystr \<Rightarrow> pystr" where
  "str_or a b = (case a of None \<Rightarrow> b | Some s \<Rightarrow> if s = [] then b else s)"

text \<open>\<^verbatim>\<open>sep.join(xs)\<close>.\<close>

fun join :: "pystr \<Rightarrow> pystr list \<Rightarrow> pystr" where
  "join sep [] = []"
| "join sep [x] = x"
| "join sep (x # y # ys) = x @ sep @ join sep (y # ys)"

text \<open>
  \<^verbatim>\<open>xs[:n]\<close>: the first \<open>n\<close> elements, and for a negative \<open>n\<close> all but the last \<open>-n\<close>.
\<close>

definition slice_to :: "'a list \<Rightarrow> int \<Rightarrow> 'a list" where
  "slice_to xs n = (if 0 \<le> n then take (nat n) xs else take (nat (int (length xs) + n)) xs)"

subsection \<open>Exceptions and HTTP calls\<close>

text \<open>
  Every \<^verbatim>\<open>raise\<close> is a value. \<open>HTTPException\<close> is what the handlers raise themselves (status
  code and detail); the others are the builtin exceptions that leave a handler uncaught,
  since its \<^verbatim>\<open>except\<close> clause names \<^verbatim>\<open>requests.RequestException\<close> only.
\<close>

datatype error =
    HTTPException nat pystr
  | KeyError pystr
  | IndexError
  | AttributeError
  | ZeroDivisionError
  | OverflowError
  | ValueError

text \<open>
  What \<^verbatim>\<open>requests.get\<close> does: it raises a \<^verbatim>\<open>RequestException\<close> (with its message), or it
  returns a response. A response carries the message of the \<^verbatim>\<open>HTTPError\<close> that
  \<^verbatim>\<open>raise_for_status\<close> would raise (\<open>None\<close> when the status is a success, which is also
  when \<^verbatim>\<open>ok\<close> holds) and the value of \<^verbatim>\<open>json()\<close>.
\<close>

datatype 'a http = Raises pystr | Response "pystr option" 'a

text \<open>
  A JSON value that the handler reads with \<^verbatim>\<open>get\<close>: an object, or any other value
  (\<^verbatim>\<open>null\<close>, a list, a string, a number), on which \<^verbatim>\<open>get\<close> raises \<^verbatim>\<open>AttributeError\<close>.
\<close>

datatype 'a obj = Obj 'a | NonObj

text \<open>A JSON object whose values are strings, read with \<^verbatim>\<open>get\<close>.\<close>

type_synonym str_dict = "(pystr \<times> pystr) list"

definition dict_get :: "str_dict \<Rightarrow> string \<Rightarrow> pystr option" where
  "dict_get d k = map_of d (lit k)"

text \<open>\<^verbatim>\<open>leg.get(key, {})\<close>: an absent object reads as the empty one.\<close>

definition or_empty :: "str_dict option \<Rightarrow> str_dict" where
  "or_empty d = (case d of None \<Rightarrow> [] | Some kvs \<Rightarrow> kvs)"

subsection \<open>The response models of the rail handler\<close>

record Route =
  Route_fromStation :: pystr
  Route_toStation :: pystr
  Route_fromStationCode :: "pystr option"
  Route_toStationCode :: "pystr option"

record Product =
  Product_longCategoryName :: pystr
  Product_number :: pystr

record Leg =
  Leg_name :: pystr
  Leg_direction :: pystr
  Leg_plannedDepartureTime :: pystr
  Leg_plannedDepartureTrack :: "pystr option"
  Leg_product :: "Product option"

record Trip =
  Trip_idx :: int
  Trip_plannedDurationInMinutes :: int
  Trip_actualDurationInMinutes :: "int option"
  Trip_transfers :: int
  Trip_status :: pystr
  Trip_legs :: "Leg list"
  Trip_crowdForecast :: "pystr option"
  Trip_punctuality :: "rat option"

record Disruption =
  Disruption_id :: pystr
  Disruption_title :: pystr
  Disruption_isActive :: bool
  Disruption_impact :: "(pystr \<times> int) list"

record RouteResponse =
  RouteResponse_routeKey :: pystr
  RouteResponse_trips :: "Trip list"
  RouteResponse_disruptions :: "Disruption list"

record RouteRequest =
  RouteRequest_routes :: "Route list"
  RouteRequest_max_journeys :: int
  RouteRequest_is_reversed :: bool

subsection \<open>What the railway API returns\<close>

text \<open>
  The payloads are modelled at the keys the handler reads, each with the type the response
  model gives it. A key read with \<^verbatim>\<open>get\<close> may be absent (\<open>None\<close>); the objects
  \<^verbatim>\<open>product\<close> and \<^verbatim>\<open>origin\<close> are dictionaries of strings, since the handler tests
  \<^verbatim>\<open>product\<close> for emptiness. Values of another JSON type than the one read are outside the
  model.
\<close>

record ns_leg =
  ns_leg_product :: "str_dict option"
  ns_leg_direction :: "pystr option"
  ns_leg_origin :: "str_dict option"

record ns_trip =
  ns_trip_legs :: "ns_leg list option"
  ns_trip_plannedDurationInMinutes :: "int option"
  ns_trip_actualDurationInMinutes :: "int option"
  ns_trip_transfers :: "int option"
  ns_trip_status :: "pystr option"
  ns_trip_crowdForecast :: "pystr option"
  ns_trip_punctuality :: "rat option"

record ns_trips_data =
  ns_trips :: "ns_trip list option"

text \<open>
  The answer of a disruption lookup is read inside the \<^verbatim>\<open>try\<close> whose \<^verbatim>\<open>except\<close> clause
  names \<^verbatim>\<open>requests.RequestException\<close> only, so what is not an object where the handler
  calls \<^verbatim>\<open>get\<close> matters: the body, the value of \<^verbatim>\<open>payload\<close>, an element of \<^verbatim>\<open>disruptions\<close>
  and the value of \<^verbatim>\<open>impact\<close> are each an object or not. An \<^verbatim>\<open>impact\<close> object has an
  optional integer \<^verbatim>\<open>value\<close>; a \<^verbatim>\<open>payload\<close> object has an optional list \<^verbatim>\<open>disruptions\<close>.
\<close>

record ns_disruption =
  ns_disruption_id :: "pystr option"
  ns_disruption_title :: "pystr option"
  ns_disruption_isActive :: "bool option"
  ns_disruption_impact :: "int option obj option"

record ns_disruptions_data =
  ns_payload :: "ns_disruption obj list option obj option"

text \<open>
  The upstream: what each \<^verbatim>\<open>requests.get\<close> answers, given the number of calls made before
  it in this request and the URL. The same URL may be answered differently later on.
\<close>

record rail_upstream =
  get_trips :: "nat \<Rightarrow> pystr \<Rightarrow> ns_trips_data http"
  get_disruptions :: "nat \<Rightarrow> pystr \<Rightarrow> ns_disruptions_data obj http"

subsection \<open>\<^verbatim>\<open>get_train_routes\<close>\<close>

definition actual_from_station :: "bool \<Rightarrow> Route \<Rightarrow> pystr" where
  "actual_from_station is_reversed route =
     (if is_reversed then Route_toStation route else Route_fromStation route)"

definition actual_to_station :: "bool \<Rightarrow> Route \<Rightarrow> pystr" where
  "actual_to_station is_reversed route =
     (if is_reversed then Route_fromStation route else Route_toStation route)"

definition actual_from_station_code :: "bool \<Rightarrow> Route \<Rightarrow> pystr option" where
  "actual_from_station_code is_reversed route =
     (if is_reversed then Route_toStationCode route else Route_fromStationCode route)"

definition actual_to_station_code :: "bool \<Rightarrow> Route \<Rightarrow> pystr option" where
  "actual_to_station_code is_reversed route =
     (if is_reversed then Route_fromStationCode route else Route_toStationCode route)"

definition route_key :: "bool \<Rightarrow> Route \<Rightarrow> pystr" where
  "route_key is_reversed route =
     actual_from_station is_reversed route @ lit ''-'' @ actual_to_station is_reversed route"

definition trips_url :: "bool \<Rightarrow> Route \<Rightarrow> pystr \<Rightarrow> pystr" where
  "trips_url is_reversed route now =
     lit ''https://gateway.apiportal.ns.nl/reisinformatie-api/api/v3/trips''
     @ lit ''?fromStation='' @ actual_from_station is_reversed route
     @ lit ''&toStation='' @ actual_to_station is_reversed route
     @ lit ''&dateTime='' @ now
     @ lit ''&searchForArrival=false''"

definition transform_leg :: "ns_leg \<Rightarrow> Leg" where
  "transform_leg leg =
     \<lparr>Leg_name =
        str_or (dict_get (or_empty (ns_leg_product leg)) ''displayName'')
          (str_or (dict_get (or_empty (ns_leg_product leg)) ''longCategoryName'')
             (lit ''Train'')),
      Leg_direction = (case ns_leg_direction leg of None \<Rightarrow> [] | Some d \<Rightarrow> d),
      Leg_plannedDepartureTime =
        str_or (dict_get (or_empty (ns_leg_origin leg)) ''plannedDateTime'')
          (str_or (dict_get (or_empty (ns_leg_origin leg)) ''actualDateTime'') []),
      Leg_plannedDepartureTrack = dict_get (or_empty (ns_leg_origin leg)) ''plannedTrack'',
      Leg_product =
        (if or_empty (ns_leg_product leg) \<noteq> []
         then Some \<lparr>Product_longCategoryName =
                       str_or (dict_get (or_empty (ns_leg_product leg)) ''longCategoryName'')
                         (lit ''Train''),
                     Product_number =
                       str_or (dict_get (or_empty (ns_leg_product leg)) ''number'') []\<rparr>
         else None)\<rparr>"

definition transform_trip :: "int \<Rightarrow> ns_trip \<Rightarrow> Trip" where
  "transform_trip idx trip =
     \<lparr>Trip_idx = idx,
      Trip_plannedDurationInMinutes =
        (case ns_trip_plannedDurationInMinutes trip of None \<Rightarrow> 0 | Some m \<Rightarrow> m),
      Trip_actualDurationInMinutes = ns_trip_actualDurationInMinutes trip,
      Trip_transfers = (case ns_trip_transfers trip of None \<Rightarrow> 0 | Some t \<Rightarrow> t),
      Trip_status = (case ns_trip_status trip of None \<Rightarrow> lit ''NORMAL'' | Some s \<Rightarrow> s),
      Trip_legs = (case ns_trip_legs trip of None \<Rightarrow> [] | Some ls \<Rightarrow> map transform_leg ls),
      Trip_crowdForecast = ns_trip_crowdForecast trip,
      Trip_punctuality = ns_trip_punctuality trip\<rparr>"

text \<open>
  The loop over \<^verbatim>\<open>enumerate(...)\<close>: \<open>idx\<close> is the counter, the result is what the loop
  appends, in order.
\<close>

fun enumerate_trips :: "int \<Rightarrow> ns_trip list \<Rightarrow> Trip list" where
  "enumerate_trips idx [] = []"
| "enumerate_trips idx (trip # rest) = transform_trip idx trip # enumerate_trips (idx + 1) rest"

definition transformed_trips :: "int \<Rightarrow> ns_trips_data \<Rightarrow> Trip list" where
  "transformed_trips max_journeys trips_data =
     (case ns_trips trips_data of
        None \<Rightarrow> []
      | Some ts \<Rightarrow> enumerate_trips 0 (slice_to ts max_journeys))"

text \<open>
  \<^verbatim>\<open>disruption.get("impact", {}).get("value", 1)\<close>: an absent \<^verbatim>\<open>impact\<close> reads as the empty
  object, one that is not an object raises.
\<close>

definition impact_value :: "ns_disruption \<Rightarrow> error + int" where
  "impact_value d =
     (case ns_disruption_impact d of
        None \<Rightarrow> Inr 1
      | Some NonObj \<Rightarrow> Inl AttributeError
      | Some (Obj None) \<Rightarrow> Inr 1
      | Some (Obj (Some v)) \<Rightarrow> Inr v)"

definition transform_disruption :: "ns_disruption \<Rightarrow> error + Disruption" where
  "transform_disruption d =
     (case impact_value d of
        Inl e \<Rightarrow> Inl e
      | Inr v \<Rightarrow>
          Inr \<lparr>Disruption_id = (case ns_disruption_id d of None \<Rightarrow> [] | Some i \<Rightarrow> i),
               Disruption_title =
                 (case ns_disruption_title d of
                    None \<Rightarrow> lit ''Unknown disruption''
                  | Some t \<Rightarrow> t),
               Disruption_isActive = True,
               Disruption_impact = [(lit ''value'', v)]\<rparr>)"

definition is_active :: "ns_disruption \<Rightarrow> bool" where
  "is_active d = (ns_disruption_isActive d = Some True)"

text \<open>
  The loop over \<^verbatim>\<open>disruptions\<close>: the active ones are transformed and appended; an element
  that is not an object raises at \<^verbatim>\<open>disruption.get("isActive")\<close>.
\<close>

fun active_disruptions :: "ns_disruption obj list \<Rightarrow> error + Disruption list" where
  "active_disruptions [] = Inr []"
| "active_disruptions (NonObj # rest) = Inl AttributeError"
| "active_disruptions (Obj d # rest) =
     (if is_active d
      then (case transform_disruption d of
              Inl e \<Rightarrow> Inl e
            | Inr x \<Rightarrow>
                (case active_disruptions rest of Inl e \<Rightarrow> Inl e | Inr xs \<Rightarrow> Inr (x # xs)))
      else active_disruptions rest)"

text \<open>
  The disruptions that one station's answer contributes (the body of the \<^verbatim>\<open>try\<close>): none
  when \<^verbatim>\<open>requests.get\<close> raised or the status is an error; an \<^verbatim>\<open>AttributeError\<close>, which the
  \<^verbatim>\<open>except\<close> clause does not catch, when the body or the payload is not an object.
\<close>

definition station_disruptions :: "ns_disruptions_data obj http \<Rightarrow> error + Disruption list" where
  "station_disruptions answer =
     (case answer of
        Raises msg \<Rightarrow> Inr []
      | Response (Some msg) body \<Rightarrow> Inr []
      | Response None NonObj \<Rightarrow> Inl AttributeError
      | Response None (Obj data) \<Rightarrow>
          (case ns_payload data of
             None \<Rightarrow> Inr []
           | Some NonObj \<Rightarrow> Inl AttributeError
           | Some (Obj None) \<Rightarrow> Inr []
           | Some (Obj (Some ds)) \<Rightarrow> active_disruptions ds))"

definition disruption_url :: "pystr \<Rightarrow> pystr" where
  "disruption_url station_code =
     lit ''https://gateway.apiportal.ns.nl/disruptions/v3/station/'' @ station_code"

text \<open>
  The loop over the station codes: \<open>n\<close> counts the calls made so far, \<open>disruptions\<close> is
  the list being appended to.
\<close>

fun fetch_disruptions ::
  "rail_upstream \<Rightarrow> nat \<Rightarrow> pystr list \<Rightarrow> Disruption list
     \<Rightarrow> error + Disruption list \<times> nat" where
  "fetch_disruptions up n [] disruptions = Inr (disruptions, n)"
| "fetch_disruptions up n (station_code # rest) disruptions =
     (case station_disruptions (get_disruptions up n (disruption_url station_code)) of
        Inl e \<Rightarrow> Inl e
      | Inr found \<Rightarrow> fetch_disruptions up (n + 1) rest (disruptions @ found))"

text \<open>\<^verbatim>\<open>[code for code in [...] if code]\<close>: \<^verbatim>\<open>None\<close> and the empty string are dropped.\<close>

definition station_codes :: "bool \<Rightarrow> Route \<Rightarrow> pystr list" where
  "station_codes is_reversed route =
     concat (map (\<lambda>code. case code of None \<Rightarrow> [] | Some c \<Rightarrow> if c = [] then [] else [c])
       [actual_from_station_code is_reversed route, actual_to_station_code is_reversed route])"

definition train_error :: "pystr \<Rightarrow> error" where
  "train_error msg = HTTPException 500 (lit ''Error fetching train routes: '' @ msg)"

text \<open>One turn of the loop over the routes: the response and the new call count.\<close>

definition route_response ::
  "rail_upstream \<Rightarrow> pystr \<Rightarrow> int \<Rightarrow> bool \<Rightarrow> nat \<Rightarrow> Route \<Rightarrow> error + RouteResponse \<times> nat" where
  "route_response up now max_journeys is_reversed n route =
     (case get_trips up n (trips_url is_reversed route now) of
        Raises msg \<Rightarrow> Inl (train_error msg)
      | Response (Some msg) trips_data \<Rightarrow> Inl (train_error msg)
      | Response None trips_data \<Rightarrow>
          (case fetch_disruptions up (n + 1) (station_codes is_reversed route) [] of
             Inl e \<Rightarrow> Inl e
           | Inr (disruptions, n') \<Rightarrow>
               Inr (\<lparr>RouteResponse_routeKey = route_key is_reversed route,
                      RouteResponse_trips = transformed_trips max_journeys trips_data,
                      RouteResponse_disruptions = disruptions\<rparr>, n')))"

fun rail_loop ::
  "rail_upstream \<Rightarrow> pystr \<Rightarrow> int \<Rightarrow> bool \<Rightarrow> nat \<Rightarrow> Route list \<Rightarrow> RouteResponse list
     \<Rightarrow> error + RouteResponse list" where
  "rail_loop up now max_journeys is_reversed n [] route_responses = Inr route_responses"
| "rail_loop up now max_journeys is_reversed n (route # rest) route_responses =
     (case route_response up now max_journeys is_reversed n route of
        Inl e \<Rightarrow> Inl e
      | Inr (response, n') \<Rightarrow>
          rail_loop up now max_journeys is_reversed n' rest (route_responses @ [response]))"

definition get_train_routes ::
  "rail_upstream \<Rightarrow> pystr \<Rightarrow> RouteRequest \<Rightarrow> error + RouteResponse list" where
  "get_train_routes up now request =
     rail_loop up now (RouteRequest_max_journeys request) (RouteRequest_is_reversed request) 0
       (RouteRequest_routes request) []"

subsection \<open>Python floats\<close>

text \<open>
  A \<^verbatim>\<open>float\<close> is an IEEE 754 binary64 number; the finite ones are rationals. Division,
  multiplication, the conversion of a decimal string and the division of two integers
  are correctly rounded: the result is the binary64 number nearest to the exact value, the
  one with an even significand on a tie.
\<close>

definition round_half_even :: "rat \<Rightarrow> int" where
  "round_half_even x =
     (let f = \<lfloor>x\<rfloor>; r = x - of_int f
      in if r < 1 / 2 then f
         else if 1 / 2 < r then f + 1
         else if even f then f else f + 1)"

definition pow2 :: "int \<Rightarrow> rat" where
  "pow2 e = (if 0 \<le> e then 2 ^ nat e else 1 / 2 ^ nat (- e))"

text \<open>For a positive \<open>x\<close>: the \<open>e\<close> with \<open>2\<^sup>e \<le> x < 2\<^sup>e\<^sup>+\<^sup>1\<close>.\<close>

definition exponent :: "rat \<Rightarrow> int" where
  "exponent x =
     (case quotient_of x of
        (p, q) \<Rightarrow> let d = bitlen p - bitlen q in if pow2 d \<le> x then d else d - 1)"

text \<open>
  Rounding to 53 significant bits, with the exponent held at \<open>-1022\<close> for the subnormal
  numbers.
\<close>

definition binary64 :: "rat \<Rightarrow> rat" where
  "binary64 x =
     (if x = 0 then 0
      else let e = max (exponent \<bar>x\<bar>) (- 1022); ulp = pow2 (e - 52)
           in sgn x * of_int (round_half_even (\<bar>x\<bar> / ulp)) * ulp)"

text \<open>
  The exact values that round beyond the largest finite number, \<open>2\<^sup>1\<^sup>0\<^sup>2\<^sup>4 - 2\<^sup>9\<^sup>7\<^sup>1\<close>: those at
  least half a unit in the last place above it.
\<close>

definition overflows :: "rat \<Rightarrow> bool" where
  "overflows x = (pow2 1024 - pow2 970 \<le> \<bar>x\<bar>)"

text \<open>
  \<^verbatim>\<open>a / b\<close> on two \<^verbatim>\<open>int\<close>s: the correctly rounded quotient, \<^verbatim>\<open>ZeroDivisionError\<close>, or
  \<^verbatim>\<open>OverflowError\<close> when the quotient is too large for a float.
\<close>

definition int_truediv :: "int \<Rightarrow> int \<Rightarrow> error + rat" where
  "int_truediv a b =
     (if b = 0 then Inl ZeroDivisionError
      else if overflows (of_int a / of_int b) then Inl OverflowError
      else Inr (binary64 (of_int a / of_int b)))"

text \<open>
  The floats of the fuel cost are never negative (no sign survives the stripping of the
  distance text), so the only special value is the positive infinity.
\<close>

datatype pyfloat = Finite rat | PosInf

definition to_float :: "rat \<Rightarrow> pyfloat" where
  "to_float x = (if overflows x then PosInf else Finite (binary64 x))"

text \<open>\<^verbatim>\<open>x / 100\<close> and \<^verbatim>\<open>x * 12\<close>: the integer becomes a float, exactly.\<close>

definition float_div :: "pyfloat \<Rightarrow> int \<Rightarrow> pyfloat" where
  "float_div x k = (case x of PosInf \<Rightarrow> PosInf | Finite v \<Rightarrow> to_float (v / of_int k))"

definition float_mul :: "pyfloat \<Rightarrow> int \<Rightarrow> pyfloat" where
  "float_mul x k = (case x of PosInf \<Rightarrow> PosInf | Finite v \<Rightarrow> to_float (v * of_int k))"

text \<open>The decimal digits of a natural number.\<close>

function show_nat :: "nat \<Rightarrow> pystr" where
  "show_nat n = (if n < 10 then [48 + n] else show_nat (n div 10) @ [48 + n mod 10])"
  by pat_completeness auto
termination
  by (relation "measure id") auto

declare show_nat.simps [simp del]

text \<open>
  The format \<^verbatim>\<open>.2f\<close>: the exact value of the float rounded to two decimals, ties to even.
\<close>

definition format_2f :: "pyfloat \<Rightarrow> pystr" where
  "format_2f x =
     (case x of
        PosInf \<Rightarrow> lit ''inf''
      | Finite v \<Rightarrow>
          (let n = nat (round_half_even (\<bar>v\<bar> * 100))
           in (if v < 0 then lit ''-'' else [])
              @ show_nat (n div 100) @ lit ''.''
              @ [48 + (n mod 100) div 10, 48 + n mod 10]))"

text \<open>The number that a string of decimal digits denotes.\<close>

definition digits_value :: "unicode_db \<Rightarrow> pystr \<Rightarrow> nat" where
  "digits_value U ds =
     foldl (\<lambda>v c. 10 * v + (case digit_value U c of None \<Rightarrow> 0 | Some d \<Rightarrow> d)) 0 ds"

text \<open>
  \<^verbatim>\<open>float(s)\<close> for a string \<open>s\<close> of decimal digits and dots, which is all the handler
  applies it to: digits with an optional dot and digits after it, or a dot and digits;
  anything else is a \<^verbatim>\<open>ValueError\<close>.
\<close>

definition float_of_digits :: "unicode_db \<Rightarrow> pystr \<Rightarrow> error + pyfloat" where
  "float_of_digits U s =
     (let whole = takeWhile (is_digit U) s
      in case dropWhile (is_digit U) s of
           [] \<Rightarrow> if whole = [] then Inl ValueError
                 else Inr (to_float (of_nat (digits_value U whole)))
         | c # fraction \<Rightarrow>
             if c = 46 \<and> list_all (is_digit U) fraction \<and> (whole \<noteq> [] \<or> fraction \<noteq> [])
             then Inr (to_float (of_nat (digits_value U (whole @ fraction))
                                 / 10 ^ length fraction))
             else Inl ValueError)"

subsection \<open>Regular expressions\<close>

text \<open>\<^verbatim>\<open>re.sub(r'[^\d.]', '', s)\<close>: every character outside the class is replaced by nothing.\<close>

fun sub_non_numeric :: "unicode_db \<Rightarrow> pystr \<Rightarrow> pystr" where
  "sub_non_numeric U [] = []"
| "sub_non_numeric U (c # cs) =
     (if is_digit U c \<or> c = 46 then c # sub_non_numeric U cs else sub_non_numeric U cs)"

text \<open>
  \<^verbatim>\<open>\b\<close> between the character before a position and the one at it (\<open>None\<close> at either end
  of the string): exactly one of the two is a word character.
\<close>

definition word_char :: "unicode_db \<Rightarrow> nat option \<Rightarrow> bool" where
  "word_char U c = (case c of None \<Rightarrow> False | Some x \<Rightarrow> is_word U x)"

definition word_boundary :: "unicode_db \<Rightarrow> nat option \<Rightarrow> nat option \<Rightarrow> bool" where
  "word_boundary U before after = (word_char U before \<noteq> word_char U after)"

definition char_at :: "pystr \<Rightarrow> nat \<Rightarrow> nat option" where
  "char_at s i = (if i < length s then Some (s ! i) else None)"

text \<open>
  \<^verbatim>\<open>\d+\b\<close> after the letter \<open>c\<close>, on the rest \<open>r\<close> of the string: \<open>k\<close> digits are taken, the
  closing \<^verbatim>\<open>\b\<close> is tested, and on failure one digit is given back. It starts with the
  longest run of digits, as the greedy \<^verbatim>\<open>+\<close> does.
\<close>

fun digits_then_boundary :: "unicode_db \<Rightarrow> nat \<Rightarrow> pystr \<Rightarrow> nat \<Rightarrow> pystr option" where
  "digits_then_boundary U c r 0 = None"
| "digits_then_boundary U c r (Suc k) =
     (if word_boundary U (char_at r k) (char_at r (Suc k)) then Some (c # take (Suc k) r)
      else digits_then_boundary U c r k)"

text \<open>The pattern \<^verbatim>\<open>\b[A-Z]\d+\b\<close> at the start of \<open>s\<close>, \<open>before\<close> being the character before it.\<close>

definition match_here :: "unicode_db \<Rightarrow> nat option \<Rightarrow> pystr \<Rightarrow> pystr option" where
  "match_here U before s =
     (case s of
        [] \<Rightarrow> None
      | c # r \<Rightarrow>
          if word_boundary U before (Some c) \<and> is_upper c
          then digits_then_boundary U c r (length (takeWhile (is_digit U) r))
          else None)"

text \<open>\<^verbatim>\<open>re.search\<close>: the match at the leftmost position that has one.\<close>

fun search_from :: "unicode_db \<Rightarrow> nat option \<Rightarrow> pystr \<Rightarrow> pystr option" where
  "search_from U before [] = None"
| "search_from U before (c # r) =
     (case match_here U before (c # r) of
        Some m \<Rightarrow> Some m
      | None \<Rightarrow> search_from U (Some c) r)"

definition re_search :: "unicode_db \<Rightarrow> pystr \<Rightarrow> pystr option" where
  "re_search U s = search_from U None s"

subsection \<open>The models of the car handler\<close>

record CarRoute =
  CarRoute_id :: int
  CarRoute_origin :: pystr
  CarRoute_destination :: pystr
  CarRoute_originName :: pystr
  CarRoute_destinationName :: pystr
  CarRoute_name :: pystr

record CarRouteRequest =
  CarRouteRequest_routes :: "CarRoute list"
  CarRouteRequest_is_reversed :: bool

record CarTripResponse =
  CarTripResponse_id :: int
  CarTripResponse_from_location :: pystr
  CarTripResponse_to :: pystr
  CarTripResponse_distance :: pystr
  CarTripResponse_duration :: pystr
  CarTripResponse_durationInTraffic :: pystr
  CarTripResponse_traffic :: pystr
  CarTripResponse_route :: pystr
  CarTripResponse_fuelCost :: pystr
  CarTripResponse_status :: pystr

subsection \<open>What the mapping API returns\<close>

text \<open>
  As for the railway API, every key is optional; the handler reads most of them with a
  subscript, which raises \<^verbatim>\<open>KeyError\<close> on an absent key and \<^verbatim>\<open>IndexError\<close> on an empty
  list. The numeric \<^verbatim>\<open>value\<close> of a duration is an integer number of seconds.
\<close>

record gm_text_value =
  gm_text :: "pystr option"
  gm_value :: "int option"

record gm_element =
  gm_distance :: "gm_text_value option"
  gm_duration :: "gm_text_value option"
  gm_duration_in_traffic :: "gm_text_value option"

record gm_row =
  gm_elements :: "gm_element list option"

record gm_matrix_data =
  gm_matrix_status :: "pystr option"
  gm_rows :: "gm_row list option"

record gm_step =
  gm_html_instructions :: "pystr option"

record gm_leg =
  gm_steps :: "gm_step list option"

record gm_route =
  gm_legs :: "gm_leg list option"

record gm_directions_data =
  gm_directions_status :: "pystr option"
  gm_routes :: "gm_route list option"

record car_upstream =
  get_distance_matrix :: "nat \<Rightarrow> pystr \<Rightarrow> gm_matrix_data http"
  get_directions :: "nat \<Rightarrow> pystr \<Rightarrow> gm_directions_data http"

subsection \<open>Subscripts and sequencing\<close>

text \<open>\<^verbatim>\<open>d[key]\<close> on an object and \<^verbatim>\<open>xs[0]\<close> on a list.\<close>

definition subscript :: "string \<Rightarrow> 'a option \<Rightarrow> error + 'a" where
  "subscript k v = (case v of None \<Rightarrow> Inl (KeyError (lit k)) | Some x \<Rightarrow> Inr x)"

definition first_item :: "'a list \<Rightarrow> error + 'a" where
  "first_item xs = (case xs of [] \<Rightarrow> Inl IndexError | x # rest \<Rightarrow> Inr x)"

text \<open>One statement after another: an exception of the first ends the computation.\<close>

definition and_then :: "error + 'a \<Rightarrow> ('a \<Rightarrow> error + 'b) \<Rightarrow> error + 'b" where
  "and_then m f = (case m of Inl e \<Rightarrow> Inl e | Inr x \<Rightarrow> f x)"

subsection \<open>\<^verbatim>\<open>get_car_routes\<close>\<close>

text \<open>The entries of \<^verbatim>\<open>current_routes\<close>: the route with the four fields set anew.\<close>

definition current_route :: "bool \<Rightarrow> CarRoute \<Rightarrow> CarRoute" where
  "current_route is_reversed route =
     route\<lparr>CarRoute_origin :=
               (if is_reversed then CarRoute_destination route else CarRoute_origin route),
           CarRoute_destination :=
               (if is_reversed then CarRoute_origin route else CarRoute_destination route),
           CarRoute_originName :=
               (if is_reversed then CarRoute_destinationName route
                else CarRoute_originName route),
           CarRoute_destinationName :=
               (if is_reversed then CarRoute_originName route
                else CarRoute_destinationName route)\<rparr>"

definition distance_matrix_url :: "pystr \<Rightarrow> CarRoute \<Rightarrow> pystr" where
  "distance_matrix_url GOOGLE_MAPS_API_KEY route =
     lit ''https://maps.googleapis.com/maps/api/distancematrix/json''
     @ lit ''?origins='' @ CarRoute_origin route
     @ lit ''&destinations='' @ CarRoute_destination route
     @ lit ''&mode=driving''
     @ lit ''&departure_time=now''
     @ lit ''&traffic_model=best_guess''
     @ lit ''&key='' @ GOOGLE_MAPS_API_KEY"

definition directions_url :: "pystr \<Rightarrow> CarRoute \<Rightarrow> pystr" where
  "directions_url GOOGLE_MAPS_API_KEY route =
     lit ''https://maps.googleapis.com/maps/api/directions/json''
     @ lit ''?origin='' @ CarRoute_origin route
     @ lit ''&destination='' @ CarRoute_destination route
     @ lit ''&mode=driving''
     @ lit ''&key='' @ GOOGLE_MAPS_API_KEY"

definition car_error :: "pystr \<Rightarrow> error" where
  "car_error msg = HTTPException 500 (lit ''Error fetching car routes: '' @ msg)"

text \<open>
  \<^verbatim>\<open>requests.get\<close>, \<^verbatim>\<open>raise_for_status\<close> and \<^verbatim>\<open>json\<close>, under the \<^verbatim>\<open>except\<close> clause of the
  handler.
\<close>

definition fetch_json :: "'a http \<Rightarrow> error + 'a" where
  "fetch_json answer =
     (case answer of
        Raises msg \<Rightarrow> Inl (car_error msg)
      | Response (Some msg) data \<Rightarrow> Inl (car_error msg)
      | Response None data \<Rightarrow> Inr data)"

text \<open>The test of \<^verbatim>\<open>data["status"]\<close> against \<^verbatim>\<open>"OK"\<close>.\<close>

definition check_status :: "string \<Rightarrow> pystr option \<Rightarrow> error + unit" where
  "check_status api status =
     and_then (subscript ''status'' status) (\<lambda>s.
       if s \<noteq> lit ''OK'' then Inl (HTTPException 500 (lit api @ lit '' API error: '' @ s))
       else Inr ())"

text \<open>\<^verbatim>\<open>distance_matrix_data["rows"][0]["elements"][0]\<close>.\<close>

definition matrix_element :: "gm_matrix_data \<Rightarrow> error + gm_element" where
  "matrix_element distance_matrix_data =
     and_then (subscript ''rows'' (gm_rows distance_matrix_data)) (\<lambda>rows.
     and_then (first_item rows) (\<lambda>row.
     and_then (subscript ''elements'' (gm_elements row)) (\<lambda>elements.
     first_item elements)))"

text \<open>\<^verbatim>\<open>element[key]["text"]\<close> and \<^verbatim>\<open>element[key]["value"]\<close>.\<close>

definition text_of :: "string \<Rightarrow> gm_text_value option \<Rightarrow> error + pystr" where
  "text_of k v = and_then (subscript k v) (\<lambda>tv. subscript ''text'' (gm_text tv))"

definition value_of :: "string \<Rightarrow> gm_text_value option \<Rightarrow> error + int" where
  "value_of k v = and_then (subscript k v) (\<lambda>tv. subscript ''value'' (gm_value tv))"

text \<open>\<^verbatim>\<open>element.get("duration_in_traffic", {}).get("text", duration)\<close>, and the same for the value.\<close>

definition text_or :: "gm_text_value option \<Rightarrow> pystr \<Rightarrow> pystr" where
  "text_or v dflt =
     (case v of None \<Rightarrow> dflt
      | Some tv \<Rightarrow> (case gm_text tv of None \<Rightarrow> dflt | Some t \<Rightarrow> t))"

definition value_or :: "gm_text_value option \<Rightarrow> int \<Rightarrow> int" where
  "value_or v dflt =
     (case v of None \<Rightarrow> dflt
      | Some tv \<Rightarrow> (case gm_value tv of None \<Rightarrow> dflt | Some x \<Rightarrow> x))"

text \<open>\<^verbatim>\<open>directions_data["routes"][0]["legs"][0]["steps"]\<close>.\<close>

definition directions_steps :: "gm_directions_data \<Rightarrow> error + gm_step list" where
  "directions_steps directions_data =
     and_then (subscript ''routes'' (gm_routes directions_data)) (\<lambda>routes.
     and_then (first_item routes) (\<lambda>route.
     and_then (subscript ''legs'' (gm_legs route)) (\<lambda>legs.
     and_then (first_item legs) (\<lambda>leg.
     subscript ''steps'' (gm_steps leg)))))"

text \<open>
  The loop over the steps: \<open>road_names\<close> is the list being appended to, and the loop is left
  as soon as it holds three names.
\<close>

fun collect_road_names :: "unicode_db \<Rightarrow> gm_step list \<Rightarrow> pystr list \<Rightarrow> error + pystr list" where
  "collect_road_names U [] road_names = Inr road_names"
| "collect_road_names U (step # rest) road_names =
     (case gm_html_instructions step of
        None \<Rightarrow> Inl (KeyError (lit ''html_instructions''))
      | Some instructions \<Rightarrow>
          (case re_search U instructions of
             None \<Rightarrow> collect_road_names U rest road_names
           | Some m \<Rightarrow>
               if 3 \<le> length (road_names @ [m]) then Inr (road_names @ [m])
               else collect_road_names U rest (road_names @ [m])))"

text \<open>The separator: a space, the arrow U+2192, a space.\<close>

definition arrow :: pystr where
  "arrow = [32, 8594, 32]"

definition route_description :: "pystr list \<Rightarrow> pystr" where
  "route_description road_names =
     (if road_names \<noteq> [] then join arrow road_names else lit ''Local roads'')"

text \<open>The literals \<^verbatim>\<open>1.4\<close> and \<^verbatim>\<open>1.2\<close> are the floats nearest to them.\<close>

definition traffic_of_ratio :: "rat \<Rightarrow> pystr" where
  "traffic_of_ratio ratio =
     (if ratio > binary64 (14 / 10) then lit ''Heavy''
      else if ratio > binary64 (12 / 10) then lit ''Moderate''
      else lit ''Light'')"

definition traffic_level :: "gm_element \<Rightarrow> error + pystr" where
  "traffic_level element =
     and_then (value_of ''duration'' (gm_duration element)) (\<lambda>duration_value.
     and_then (int_truediv (value_or (gm_duration_in_traffic element) duration_value)
                 duration_value) (\<lambda>ratio.
     Inr (traffic_of_ratio ratio)))"

text \<open>The currency sign U+20AC.\<close>

definition euro :: pystr where
  "euro = [8364]"

definition fuel_price_per_100km :: int where
  "fuel_price_per_100km = 12"

definition fuel_cost :: "unicode_db \<Rightarrow> pystr \<Rightarrow> error + pystr" where
  "fuel_cost U distance =
     and_then (float_of_digits U (sub_non_numeric U distance)) (\<lambda>distance_value.
     Inr (euro @ format_2f (float_mul (float_div distance_value 100) fuel_price_per_100km)))"

text \<open>
  One turn of the loop over \<^verbatim>\<open>current_routes\<close>, in the order of the statements: \<open>n\<close>
  counts the calls made so far.
\<close>

definition car_trip_response ::
  "car_upstream \<Rightarrow> unicode_db \<Rightarrow> pystr \<Rightarrow> nat \<Rightarrow> CarRoute \<Rightarrow> error + CarTripResponse" where
  "car_trip_response up U GOOGLE_MAPS_API_KEY n route =
     and_then (fetch_json (get_distance_matrix up n
                 (distance_matrix_url GOOGLE_MAPS_API_KEY route))) (\<lambda>distance_matrix_data.
     and_then (check_status ''Distance Matrix''
                 (gm_matrix_status distance_matrix_data)) (\<lambda>_.
     and_then (matrix_element distance_matrix_data) (\<lambda>element.
     and_then (text_of ''distance'' (gm_distance element)) (\<lambda>distance.
     and_then (text_of ''duration'' (gm_duration element)) (\<lambda>duration.
     and_then (fetch_json (get_directions up (n + 1)
                 (directions_url GOOGLE_MAPS_API_KEY route))) (\<lambda>directions_data.
     and_then (check_status ''Directions'' (gm_directions_status directions_data)) (\<lambda>_.
     and_then (directions_steps directions_data) (\<lambda>steps.
     and_then (collect_road_names U steps []) (\<lambda>road_names.
     and_then (traffic_level element) (\<lambda>traffic.
     and_then (fuel_cost U distance) (\<lambda>fuel_cost.
     Inr \<lparr>CarTripResponse_id = CarRoute_id route,
          CarTripResponse_from_location = CarRoute_originName route,
          CarTripResponse_to = CarRoute_destinationName route,
          CarTripResponse_distance = distance,
          CarTripResponse_duration = duration,
          CarTripResponse_durationInTraffic = text_or (gm_duration_in_traffic element) duration,
          CarTripResponse_traffic = traffic,
          CarTripResponse_route = route_description road_names,
          CarTripResponse_fuelCost = fuel_cost,
          CarTripResponse_status = lit ''NORMAL''\<rparr>)))))))))))"

fun car_loop ::
  "car_upstream \<Rightarrow> unicode_db \<Rightarrow> pystr \<Rightarrow> nat \<Rightarrow> CarRoute list \<Rightarrow> CarTripResponse list
     \<Rightarrow> error + CarTripResponse list" where
  "car_loop up U GOOGLE_MAPS_API_KEY n [] trip_responses = Inr trip_responses"
| "car_loop up U GOOGLE_MAPS_API_KEY n (route # rest) trip_responses =
     (case car_trip_response up U GOOGLE_MAPS_API_KEY n route of
        Inl e \<Rightarrow> Inl e
      | Inr response \<Rightarrow>
          car_loop up U GOOGLE_MAPS_API_KEY (n + 2) rest (trip_responses @ [response]))"

definition get_car_routes ::
  "car_upstream \<Rightarrow> unicode_db \<Rightarrow> pystr \<Rightarrow> CarRouteRequest \<Rightarrow> error + CarTripResponse list" where
  "get_car_routes up U GOOGLE_MAPS_API_KEY request =
     car_loop up U GOOGLE_MAPS_API_KEY 0
       (map (current_route (CarRouteRequest_is_reversed request))
          (CarRouteRequest_routes request)) []"

subsection \<open>Notions for stating the properties\<close>

text \<open>
  A call has failed when \<^verbatim>\<open>requests.get\<close> raised or the status is an error, which is
  when \<^verbatim>\<open>raise_for_status\<close> raises and \<^verbatim>\<open>ok\<close> is false.
\<close>

definition failed :: "'a http \<Rightarrow> bool" where
  "failed answer =
     (case answer of
        Raises msg \<Rightarrow> True
      | Response (Some msg) data \<Rightarrow> True
      | Response None data \<Rightarrow> False)"

text \<open>
  The number of calls that the rail handler makes for a list of routes: one trip search
  and one disruption lookup per station code, for each route.
\<close>

definition calls_made :: "bool \<Rightarrow> Route list \<Rightarrow> nat" where
  "calls_made is_reversed routes =
     sum_list (map (\<lambda>route. 1 + length (station_codes is_reversed route)) routes)"

text \<open>The route with origin and destination, and their codes, exchanged.\<close>

definition swap_stations :: "Route \<Rightarrow> Route" where
  "swap_stations route =
     \<lparr>Route_fromStation = Route_toStation route,
      Route_toStation = Route_fromStation route,
      Route_fromStationCode = Route_toStationCode route,
      Route_toStationCode = Route_fromStationCode route\<rparr>"

text \<open>The first non-empty value of a chain, else the fallback.\<close>

fun first_non_empty :: "pystr option list \<Rightarrow> pystr \<Rightarrow> pystr" where
  "first_non_empty [] fallback = fallback"
| "first_non_empty (None # rest) fallback = first_non_empty rest fallback"
| "first_non_empty (Some s # rest) fallback = (if s \<noteq> [] then s else first_non_empty rest fallback)"

text \<open>The lists that a payload holds, an absent key being the empty list.\<close>

definition upstream_trips :: "ns_trips_data \<Rightarrow> ns_trip list" where
  "upstream_trips data = (case ns_trips data of None \<Rightarrow> [] | Some ts \<Rightarrow> ts)"

definition upstream_legs :: "ns_trip \<Rightarrow> ns_leg list" where
  "upstream_legs trip = (case ns_trip_legs trip of None \<Rightarrow> [] | Some ls \<Rightarrow> ls)"

definition upstream_disruptions :: "ns_disruptions_data \<Rightarrow> ns_disruption obj list" where
  "upstream_disruptions data =
     (case ns_payload data of
        None \<Rightarrow> []
      | Some NonObj \<Rightarrow> []
      | Some (Obj None) \<Rightarrow> []
      | Some (Obj (Some ds)) \<Rightarrow> ds)"

definition example_leg :: ns_leg where
  "example_leg =
     \<lparr>ns_leg_product = Some [(lit ''longCategoryName'', lit ''Intercity'')],
      ns_leg_direction = Some (lit ''Utrecht''),
      ns_leg_origin = Some [(lit ''actualDateTime'', lit ''12:00'')]\<rparr>"

definition example_trip :: ns_trip where
  "example_trip =
     \<lparr>ns_trip_legs = Some [example_leg],
      ns_trip_plannedDurationInMinutes = Some 27,
      ns_trip_actualDurationInMinutes = None,
      ns_trip_transfers = Some 0,
      ns_trip_status = None,
      ns_trip_crowdForecast = None,
      ns_trip_punctuality = None\<rparr>"

definition example_disruptions :: ns_disruptions_data where
  "example_disruptions =
     \<lparr>ns_payload = Some (Obj (Some
        [Obj \<lparr>ns_disruption_id = Some (lit ''1''), ns_disruption_title = Some (lit ''Works''),
              ns_disruption_isActive = Some True, ns_disruption_impact = Some (Obj (Some 3))\<rparr>,
         Obj \<lparr>ns_disruption_id = Some (lit ''2''), ns_disruption_title = None,
              ns_disruption_isActive = Some False, ns_disruption_impact = None\<rparr>]))\<rparr>"

text \<open>
  An upstream for concrete runs: three trips for every search; the disruption lookup
  that is call number 1 times out, every other one reports an active and an inactive
  disruption.
\<close>

definition example_rail_upstream :: rail_upstream where
  "example_rail_upstream =
     \<lparr>get_trips = (\<lambda>n url. Response None \<lparr>ns_trips = Some [example_trip, example_trip, example_trip]\<rparr>),
      get_disruptions = (\<lambda>n url. if n = 1 then Raises (lit ''timeout'') else Response None (Obj example_disruptions))\<rparr>"

definition example_route :: Route where
  "example_route =
     \<lparr>Route_fromStation = lit ''A'', Route_toStation = lit ''B'',
      Route_fromStationCode = Some (lit ''ASD''), Route_toStationCode = Some (lit ''UT'')\<rparr>"

definition example_request :: "int \<Rightarrow> RouteRequest" where
  "example_request max_journeys =
     \<lparr>RouteRequest_routes = [example_route],
      RouteRequest_max_journeys = max_journeys,
      RouteRequest_is_reversed = False\<rparr>"

text \<open>
  The answer to the trip search of the \<open>i\<close>-th route of a request, and to the disruption
  lookup for the \<open>j\<close>-th station code of that route: the calls are numbered in the order
  the handler makes them.
\<close>

definition trip_search_call :: "rail_upstream \<Rightarrow> pystr \<Rightarrow> RouteRequest \<Rightarrow> nat \<Rightarrow> ns_trips_data http" where
  "trip_search_call up now request i =
     get_trips up
       (calls_made (RouteRequest_is_reversed request) (take i (RouteRequest_routes request)))
       (trips_url (RouteRequest_is_reversed request) (RouteRequest_routes request ! i) now)"

definition disruption_call ::
  "rail_upstream \<Rightarrow> RouteRequest \<Rightarrow> nat \<Rightarrow> nat \<Rightarrow> ns_disruptions_data obj http" where
  "disruption_call up request i j =
     get_disruptions up
       (calls_made (RouteRequest_is_reversed request) (take i (RouteRequest_routes request))
          + 1 + j)
       (disruption_url
          (station_codes (RouteRequest_is_reversed request) (RouteRequest_routes request ! i) ! j))"

text \<open>
  An upstream that answers every call with its URL: as the status of the one trip of a trip
  search, as the id of the one active disruption of a lookup.
\<close>

definition echo_rail_upstream :: rail_upstream where
  "echo_rail_upstream =
     \<lparr>get_trips = (\<lambda>n url. Response None
        \<lparr>ns_trips = Some [\<lparr>ns_trip_legs = None,
                            ns_trip_plannedDurationInMinutes = None,
                            ns_trip_actualDurationInMinutes = None,
                            ns_trip_transfers = None,
                            ns_trip_status = Some url,
                            ns_trip_crowdForecast = None,
                            ns_trip_punctuality = None\<rparr>]\<rparr>),
      get_disruptions = (\<lambda>n url. Response None (Obj
        \<lparr>ns_payload = Some (Obj (Some
           [Obj \<lparr>ns_disruption_id = Some url, ns_disruption_title = None,
                 ns_disruption_isActive = Some True, ns_disruption_impact = None\<rparr>]))\<rparr>))\<rparr>"

definition reversed_request :: RouteRequest where
  "reversed_request =
     \<lparr>RouteRequest_routes = [example_route],
      RouteRequest_max_journeys = 5,
      RouteRequest_is_reversed = True\<rparr>"

text \<open>
  An upstream whose trip searches succeed and whose disruption lookups answer with status
  200 and the body \<^verbatim>\<open>{"payload": null}\<close>.
\<close>

definition malformed_lookup_upstream :: rail_upstream where
  "malformed_lookup_upstream =
     \<lparr>get_trips = (\<lambda>n url. Response None \<lparr>ns_trips = Some [example_trip]\<rparr>),
      get_disruptions = (\<lambda>n url. Response None (Obj \<lparr>ns_payload = Some NonObj\<rparr>))\<rparr>"

text \<open>
  Answers of the mapping API for concrete runs: a distance-matrix element with the given
  duration value and, when there is one, duration-in-traffic value; directions with three
  steps; an upstream that answers every call with them.
\<close>

definition element_with :: "int \<Rightarrow> int option \<Rightarrow> gm_element" where
  "element_with duration_value traffic_value =
     \<lparr>gm_distance = Some \<lparr>gm_text = Some (lit ''42.5 km''), gm_value = Some 42500\<rparr>,
      gm_duration = Some \<lparr>gm_text = Some (lit ''30 mins''), gm_value = Some duration_value\<rparr>,
      gm_duration_in_traffic =
        (case traffic_value of
           None \<Rightarrow> None
         | Some v \<Rightarrow> Some \<lparr>gm_text = Some (lit ''42 mins''), gm_value = Some v\<rparr>)\<rparr>"

definition example_directions :: gm_directions_data where
  "example_directions =
     \<lparr>gm_directions_status = Some (lit ''OK''),
      gm_routes = Some [\<lparr>gm_legs = Some [\<lparr>gm_steps = Some
        [\<lparr>gm_html_instructions = Some (lit ''Head north'')\<rparr>,
         \<lparr>gm_html_instructions = Some (lit ''Take exit onto A10'')\<rparr>,
         \<lparr>gm_html_instructions = Some (lit ''Continue on N1'')\<rparr>]\<rparr>]\<rparr>]\<rparr>"

definition car_upstream_with :: "gm_element \<Rightarrow> car_upstream" where
  "car_upstream_with element =
     \<lparr>get_distance_matrix = (\<lambda>n url. Response None
        \<lparr>gm_matrix_status = Some (lit ''OK''),
         gm_rows = Some [\<lparr>gm_elements = Some [element]\<rparr>]\<rparr>),
      get_directions = (\<lambda>n url. Response None example_directions)\<rparr>"

definition example_car_route :: CarRoute where
  "example_car_route =
     \<lparr>CarRoute_id = 7, CarRoute_origin = lit ''Amsterdam'',
      CarRoute_destination = lit ''Utrecht'', CarRoute_originName = lit ''Home'',
      CarRoute_destinationName = lit ''Work'', CarRoute_name = lit ''Commute''\<rparr>"

definition example_car_request :: CarRouteRequest where
  "example_car_request =
     \<lparr>CarRouteRequest_routes = [example_car_route], CarRouteRequest_is_reversed = False\<rparr>"

text \<open>
  A road name in a text \<open>pre @ m @ post\<close>: \<open>m\<close> is a letter of \<open>A\<close> to \<open>Z\<close> followed by one or
  more decimal digits, and neither the character before it (\<open>before\<close> when \<open>pre\<close> is empty)
  nor the character after it is a word character.
\<close>

definition road_token :: "unicode_db \<Rightarrow> nat option \<Rightarrow> pystr \<Rightarrow> pystr \<Rightarrow> pystr \<Rightarrow> bool" where
  "road_token U before pre m post =
     ((case m of [] \<Rightarrow> False
       | c # ds \<Rightarrow> is_upper c \<and> ds \<noteq> [] \<and> list_all (is_digit U) ds)
      \<and> \<not> word_char U (if pre = [] then before else Some (last pre))
      \<and> \<not> word_char U (if post = [] then None else Some (hd post)))"

text \<open>
  The reading of C9 as it is worded: the first substring that is one uppercase letter
  followed by one or more digits, wherever it stands.
\<close>

fun first_letter_digits :: "unicode_db \<Rightarrow> pystr \<Rightarrow> pystr option" where
  "first_letter_digits U [] = None"
| "first_letter_digits U (c # r) =
     (if is_upper c \<and> takeWhile (is_digit U) r \<noteq> [] then Some (c # takeWhile (is_digit U) r)
      else first_letter_digits U r)"

text \<open>The matches of the steps, in step order: at most one per step.\<close>

definition road_matches :: "unicode_db \<Rightarrow> gm_step list \<Rightarrow> pystr list" where
  "road_matches U steps =
     concat (map (\<lambda>step. case gm_html_instructions step of
                           None \<Rightarrow> []
                         | Some instructions \<Rightarrow>
                             (case re_search U instructions of None \<Rightarrow> [] | Some m \<Rightarrow> [m]))
               steps)"



section \<open>Properties\<close>

subsection \<open>The loops of the rail handler\<close>


lemma enumerate_trips_length: "length (enumerate_trips i ts) = length ts"
  by (induction ts arbitrary: i) auto

lemma enumerate_trips_nth:
  "k < length ts \<Longrightarrow> enumerate_trips i ts ! k = transform_trip (i + int k) (ts ! k)"
proof (induction ts arbitrary: i k)
  case Nil
  then show ?case by simp
next
  case (Cons t ts)
  show ?case
  proof (cases k)
    case 0
    then show ?thesis by simp
  next
    case (Suc j)
    with Cons.prems have "j < length ts" by simp
    from Cons.IH [OF this, of "i + 1"] Suc show ?thesis by (simp add: add.assoc)
  qed
qed

lemma slice_to_length_le: "0 \<le> n \<Longrightarrow> int (length (slice_to xs n)) \<le> n"
  by (simp add: slice_to_def)

lemma slice_to_nth: "k < length (slice_to xs n) \<Longrightarrow> slice_to xs n ! k = xs ! k"
  by (simp add: slice_to_def split: if_splits)

lemma slice_to_length_nonneg: "0 \<le> n \<Longrightarrow> length (slice_to xs n) = min (length xs) (nat n)"
  by (simp add: slice_to_def)

lemma fetch_disruptions_Inr:
  "fetch_disruptions up n codes acc = Inr (ds, n') \<Longrightarrow>
     n' = n + length codes
     \<and> (\<exists>found. length found = length codes
           \<and> (\<forall>j < length codes.
                 station_disruptions (get_disruptions up (n + j) (disruption_url (codes ! j)))
                   = Inr (found ! j))
           \<and> ds = acc @ concat found)"
proof (induction codes arbitrary: n acc)
  case Nil
  then show ?case by simp
next
  case (Cons c cs)
  from Cons.prems obtain f where
    st: "station_disruptions (get_disruptions up n (disruption_url c)) = Inr f"
    and more: "fetch_disruptions up (n + 1) cs (acc @ f) = Inr (ds, n')"
    by (auto split: sum.splits)
  from Cons.IH [OF more] obtain found where
    n': "n' = n + 1 + length cs" and len: "length found = length cs"
    and each: "\<forall>j < length cs.
                 station_disruptions (get_disruptions up (n + 1 + j) (disruption_url (cs ! j)))
                   = Inr (found ! j)"
    and ds: "ds = (acc @ f) @ concat found"
    by blast
  have "\<forall>j < length (c # cs).
          station_disruptions (get_disruptions up (n + j) (disruption_url ((c # cs) ! j)))
            = Inr ((f # found) ! j)"
  proof (intro allI impI)
    fix j assume j: "j < length (c # cs)"
    show "station_disruptions (get_disruptions up (n + j) (disruption_url ((c # cs) ! j)))
            = Inr ((f # found) ! j)"
    proof (cases j)
      case 0
      then show ?thesis using st by simp
    next
      case (Suc k)
      with j each show ?thesis by simp
    qed
  qed
  with n' len ds show ?case by (intro conjI exI [of _ "f # found"]) simp_all
qed

lemma failed_iff: "failed answer \<longleftrightarrow> (\<forall>data. answer \<noteq> Response None data)"
  by (cases answer) (auto simp: failed_def split: option.splits)

lemma route_response_Inr:
  "route_response up now mj rv n route = Inr (resp, n') \<longleftrightarrow>
     (\<exists>data ds. get_trips up n (trips_url rv route now) = Response None data
        \<and> fetch_disruptions up (n + 1) (station_codes rv route) [] = Inr (ds, n')
        \<and> resp = \<lparr>RouteResponse_routeKey = route_key rv route,
                   RouteResponse_trips = transformed_trips mj data,
                   RouteResponse_disruptions = ds\<rparr>)"
  by (auto simp: route_response_def split: http.splits option.splits sum.splits)

lemma route_response_count:
  "route_response up now mj rv n route = Inr (resp, n') \<Longrightarrow>
     n' = n + 1 + length (station_codes rv route)"
  by (auto simp: route_response_Inr dest: fetch_disruptions_Inr)

lemma route_response_failed:
  "failed (get_trips up n (trips_url rv route now)) \<Longrightarrow>
     \<exists>msg. route_response up now mj rv n route = Inl (train_error msg)"
  by (auto simp: route_response_def failed_def split: http.splits option.splits prod.splits)

lemma calls_made_take_Suc:
  "i < length routes \<Longrightarrow>
     calls_made rv (take (Suc i) routes)
       = calls_made rv (take i routes) + 1 + length (station_codes rv (routes ! i))"
  by (simp add: calls_made_def take_Suc_conv_app_nth)

lemma rail_loop_Inr:
  "rail_loop up now mj rv n routes acc = Inr out \<Longrightarrow>
     \<exists>rs. out = acc @ rs \<and> length rs = length routes
       \<and> (\<forall>i < length routes.
             route_response up now mj rv (n + calls_made rv (take i routes)) (routes ! i)
               = Inr (rs ! i, n + calls_made rv (take (Suc i) routes)))"
proof (induction routes arbitrary: n acc)
  case Nil
  then show ?case by simp
next
  case (Cons r routes)
  from Cons.prems obtain resp n' where
    r: "route_response up now mj rv n r = Inr (resp, n')"
    and loop: "rail_loop up now mj rv n' routes (acc @ [resp]) = Inr out"
    by (auto split: sum.splits)
  from r have n': "n' = n + 1 + length (station_codes rv r)"
    by (rule route_response_count)
  from Cons.IH [OF loop] obtain rs where
    out: "out = (acc @ [resp]) @ rs" and len: "length rs = length routes"
    and each: "\<forall>i < length routes.
             route_response up now mj rv (n' + calls_made rv (take i routes)) (routes ! i)
               = Inr (rs ! i, n' + calls_made rv (take (Suc i) routes))"
    by blast
  have "\<forall>i < length (r # routes).
          route_response up now mj rv (n + calls_made rv (take i (r # routes))) ((r # routes) ! i)
            = Inr ((resp # rs) ! i, n + calls_made rv (take (Suc i) (r # routes)))"
  proof (intro allI impI)
    fix i assume i: "i < length (r # routes)"
    show "route_response up now mj rv (n + calls_made rv (take i (r # routes))) ((r # routes) ! i)
            = Inr ((resp # rs) ! i, n + calls_made rv (take (Suc i) (r # routes)))"
    proof (cases i)
      case 0
      then show ?thesis using r n' by (simp add: calls_made_def)
    next
      case (Suc j)
      with i have "j < length routes" by simp
      with each have "route_response up now mj rv (n' + calls_made rv (take j routes)) (routes ! j)
               = Inr (rs ! j, n' + calls_made rv (take (Suc j) routes))" by blast
      then show ?thesis using Suc n' by (simp add: calls_made_def add.assoc add.commute add.left_commute)
    qed
  qed
  with out len show ?case by (intro exI [of _ "resp # rs"]) simp
qed

lemma get_train_routes_Inr:
  assumes "get_train_routes up now request = Inr out"
  shows "length out = length (RouteRequest_routes request)"
    and "\<And>i. i < length (RouteRequest_routes request) \<Longrightarrow>
           route_response up now (RouteRequest_max_journeys request)
               (RouteRequest_is_reversed request)
               (calls_made (RouteRequest_is_reversed request) (take i (RouteRequest_routes request)))
               (RouteRequest_routes request ! i)
             = Inr (out ! i, calls_made (RouteRequest_is_reversed request)
                               (take (Suc i) (RouteRequest_routes request)))"
  using rail_loop_Inr [of up now "RouteRequest_max_journeys request"
      "RouteRequest_is_reversed request" 0 "RouteRequest_routes request" "[]" out] assms
  by (auto simp: get_train_routes_def)

lemma transformed_trips_length:
  "length (transformed_trips mj data) = length (slice_to (upstream_trips data) mj)"
  by (simp add: transformed_trips_def upstream_trips_def enumerate_trips_length slice_to_def
      split: option.splits)

lemma transformed_trips_nth:
  "i < length (transformed_trips mj data) \<Longrightarrow>
     transformed_trips mj data ! i = transform_trip (int i) (upstream_trips data ! i)"
  by (auto simp: transformed_trips_def upstream_trips_def enumerate_trips_length
      enumerate_trips_nth slice_to_nth split: option.splits)

lemma get_train_routes_nth:
  assumes "get_train_routes up now request = Inr out"
    and "i < length (RouteRequest_routes request)"
  shows "\<exists>data found.
           trip_search_call up now request i = Response None data
         \<and> RouteResponse_routeKey (out ! i)
             = route_key (RouteRequest_is_reversed request) (RouteRequest_routes request ! i)
         \<and> RouteResponse_trips (out ! i)
             = transformed_trips (RouteRequest_max_journeys request) data
         \<and> length found
             = length (station_codes (RouteRequest_is_reversed request)
                         (RouteRequest_routes request ! i))
         \<and> (\<forall>j < length (station_codes (RouteRequest_is_reversed request)
                             (RouteRequest_routes request ! i)).
               station_disruptions (disruption_call up request i j) = Inr (found ! j))
         \<and> RouteResponse_disruptions (out ! i) = concat found"
proof -
  let ?rv = "RouteRequest_is_reversed request"
  let ?n = "calls_made ?rv (take i (RouteRequest_routes request))"
  let ?route = "RouteRequest_routes request ! i"
  from get_train_routes_Inr(2) [OF assms] obtain data ds n' where
    d: "get_trips up ?n (trips_url ?rv ?route now) = Response None data"
    and f: "fetch_disruptions up (?n + 1) (station_codes ?rv ?route) [] = Inr (ds, n')"
    and r: "out ! i = \<lparr>RouteResponse_routeKey = route_key ?rv ?route,
                        RouteResponse_trips =
                          transformed_trips (RouteRequest_max_journeys request) data,
                        RouteResponse_disruptions = ds\<rparr>"
    by (auto simp: route_response_Inr)
  from fetch_disruptions_Inr [OF f] obtain found where
    len: "length found = length (station_codes ?rv ?route)"
    and each: "\<forall>j < length (station_codes ?rv ?route).
                 station_disruptions
                   (get_disruptions up (?n + 1 + j) (disruption_url (station_codes ?rv ?route ! j)))
                   = Inr (found ! j)"
    and ds: "ds = concat found"
    by auto
  from d r len each ds show ?thesis
    by (intro exI [of _ data] exI [of _ found])
       (simp add: trip_search_call_def disruption_call_def)
qed

lemma response_of_route:
  assumes "get_train_routes up now request = Inr out" and "response \<in> set out"
  shows "\<exists>i < length (RouteRequest_routes request). response = out ! i"
proof -
  from assms(2) obtain i where i: "i < length out" and r: "out ! i = response"
    by (auto simp: in_set_conv_nth)
  from i get_train_routes_Inr(1) [OF assms(1)]
  have "i < length (RouteRequest_routes request)" by simp
  with r show ?thesis by auto
qed

subsection \<open>The trips of a route\<close>

text \<open>
  C2, as amended. For every response of a rail request: the trip at position \<open>i\<close> has
  \<open>idx = i\<close>; the trips are the transformed upstream trips of one trip search, a prefix of
  them in upstream order, as many as the slice \<^verbatim>\<open>[:max_journeys]\<close> keeps; and when
  \<open>max_journeys\<close> is not negative there are at most \<open>max_journeys\<close> of them.
\<close>

theorem trips_indexed_and_capped:
  assumes "get_train_routes up now request = Inr out" and "response \<in> set out"
  shows "(0 \<le> RouteRequest_max_journeys request \<longrightarrow>
            int (length (RouteResponse_trips response)) \<le> RouteRequest_max_journeys request)
       \<and> (\<forall>i < length (RouteResponse_trips response).
             Trip_idx (RouteResponse_trips response ! i) = int i)
       \<and> (\<exists>n url data.
             get_trips up n url = Response None data
           \<and> length (RouteResponse_trips response)
               = length (slice_to (upstream_trips data) (RouteRequest_max_journeys request))
           \<and> length (RouteResponse_trips response) \<le> length (upstream_trips data)
           \<and> (\<forall>i < length (RouteResponse_trips response).
                 RouteResponse_trips response ! i
                   = transform_trip (int i) (upstream_trips data ! i)))"
proof -
  from response_of_route [OF assms] obtain k where
    k: "k < length (RouteRequest_routes request)" and r: "response = out ! k"
    by blast
  from get_train_routes_nth [OF assms(1) k] r obtain n url data where
    d: "get_trips up n url = Response None data"
    and t: "RouteResponse_trips response
              = transformed_trips (RouteRequest_max_journeys request) data"
    unfolding trip_search_call_def by blast
  have len: "length (RouteResponse_trips response)
               = length (slice_to (upstream_trips data) (RouteRequest_max_journeys request))"
    by (simp add: t transformed_trips_length)
  have nth: "\<forall>i < length (RouteResponse_trips response).
               RouteResponse_trips response ! i = transform_trip (int i) (upstream_trips data ! i)"
    by (simp add: t transformed_trips_nth)
  have cap: "0 \<le> RouteRequest_max_journeys request \<longrightarrow>
            int (length (RouteResponse_trips response)) \<le> RouteRequest_max_journeys request"
    by (simp add: len slice_to_length_le)
  have le: "length (RouteResponse_trips response) \<le> length (upstream_trips data)"
    by (auto simp: len slice_to_def)
  have idx: "\<forall>i < length (RouteResponse_trips response).
             Trip_idx (RouteResponse_trips response ! i) = int i"
    using nth by (simp add: transform_trip_def)
  from d len le nth cap idx show ?thesis by blast
qed

lemmas rail_eval =
  get_train_routes_def route_response_def example_request_def example_route_def
  example_rail_upstream_def station_codes_def actual_from_station_code_def
  actual_to_station_code_def actual_from_station_def actual_to_station_def
  transformed_trips_def slice_to_def station_disruptions_def example_disruptions_def
  is_active_def transform_disruption_def impact_value_def route_key_def lit_def




theorem trips_indexed_and_capped_witness:
  "\<exists>out response.
     get_train_routes example_rail_upstream [] (example_request 2) = Inr out
   \<and> response \<in> set out
   \<and> int (length (RouteResponse_trips response)) \<le> 2
   \<and> length (RouteResponse_trips response) = 2
   \<and> Trip_idx (RouteResponse_trips response ! 1) = 1"
proof -
  obtain out where h1: "get_train_routes example_rail_upstream [] (example_request 2) = Inr out"
    and ne: "out \<noteq> []"
    and len: "length (RouteResponse_trips (hd out)) = 2"
    by (simp add: rail_eval)
  from ne have h2: "hd out \<in> set out" by simp
  from trips_indexed_and_capped [OF h1 h2] len
  have "int (length (RouteResponse_trips (hd out))) \<le> 2
      \<and> Trip_idx (RouteResponse_trips (hd out) ! 1) = 1"
    by (auto simp: example_request_def)
  with h1 h2 len
  have "get_train_routes example_rail_upstream [] (example_request 2) = Inr out
      \<and> hd out \<in> set out
      \<and> int (length (RouteResponse_trips (hd out))) \<le> 2
      \<and> length (RouteResponse_trips (hd out)) = 2
      \<and> Trip_idx (RouteResponse_trips (hd out) ! 1) = 1"
    by simp
  then show ?thesis by (intro exI [of _ out] exI [of _ "hd out"])
qed

text \<open>
  With \<open>max_journeys = -1\<close> the slice drops the last of the three upstream trips, and the two
  trips returned are more than \<open>max_journeys\<close>.
\<close>

theorem negative_cap_counterexample:
  "map_sum id (map (length \<circ> RouteResponse_trips))
     (get_train_routes example_rail_upstream [] (example_request (- 1))) = Inr [2]
   \<and> \<not> (2 :: int) \<le> RouteRequest_max_journeys (example_request (- 1))"
  by (simp add: rail_eval)

subsection \<open>Reversed routes\<close>

lemma reversed_parts:
  "trips_url True route now = trips_url False (swap_stations route) now"
  "route_key True route = route_key False (swap_stations route)"
  "station_codes True route = station_codes False (swap_stations route)"
  by (simp_all add: trips_url_def route_key_def station_codes_def
      actual_from_station_def actual_to_station_def actual_from_station_code_def
      actual_to_station_code_def swap_stations_def)

lemma route_response_reversed:
  "route_response up now mj True n route = route_response up now mj False n (swap_stations route)"
  unfolding route_response_def reversed_parts ..

lemma rail_loop_reversed:
  "rail_loop up now mj True n routes acc = rail_loop up now mj False n (map swap_stations routes) acc"
  by (induction routes arbitrary: n acc) (auto simp: route_response_reversed split: sum.splits)

lemmas rail_eval2 = rail_eval echo_rail_upstream_def reversed_request_def trips_url_def
  disruption_url_def transform_trip_def

text \<open>
  C3. In the answer to a reversed request, the response of the \<open>i\<close>-th route has the route
  key \<open>toStation-fromStation\<close>; its trips are those of the trip search from \<open>toStation\<close>
  to \<open>fromStation\<close>, and its disruptions those of the lookups for the station codes with
  the destination's code first. A reversed request is answered as the request with every
  route's stations and codes exchanged that is not reversed. In a run against the upstream
  that echoes its URLs, the route from \<open>A\<close> to \<open>B\<close> reversed and the route from \<open>B\<close> to
  \<open>A\<close> not reversed both get the key \<open>B-A\<close>, and the reversed one searches from \<open>B\<close> to
  \<open>A\<close> and looks up the code of \<open>B\<close> before that of \<open>A\<close>.
\<close>

theorem reversed_swaps_stations:
  "(get_train_routes up now request = Inr out \<and> RouteRequest_is_reversed request
      \<and> i < length (RouteRequest_routes request) \<longrightarrow>
      RouteResponse_routeKey (out ! i)
        = Route_toStation (RouteRequest_routes request ! i) @ lit ''-''
          @ Route_fromStation (RouteRequest_routes request ! i)
    \<and> (\<exists>data found.
          get_trips up (calls_made True (take i (RouteRequest_routes request)))
            (lit ''https://gateway.apiportal.ns.nl/reisinformatie-api/api/v3/trips''
             @ lit ''?fromStation='' @ Route_toStation (RouteRequest_routes request ! i)
             @ lit ''&toStation='' @ Route_fromStation (RouteRequest_routes request ! i)
             @ lit ''&dateTime='' @ now
             @ lit ''&searchForArrival=false'')
            = Response None data
        \<and> RouteResponse_trips (out ! i)
            = transformed_trips (RouteRequest_max_journeys request) data
        \<and> length found
            = length (station_codes False (swap_stations (RouteRequest_routes request ! i)))
        \<and> (\<forall>j < length found.
              station_disruptions
                (get_disruptions up (calls_made True (take i (RouteRequest_routes request)) + 1 + j)
                   (disruption_url
                      (station_codes False (swap_stations (RouteRequest_routes request ! i)) ! j)))
                = Inr (found ! j))
        \<and> RouteResponse_disruptions (out ! i) = concat found))
   \<and> get_train_routes up now
       \<lparr>RouteRequest_routes = routes, RouteRequest_max_journeys = mj,
        RouteRequest_is_reversed = True\<rparr>
     = get_train_routes up now
       \<lparr>RouteRequest_routes = map swap_stations routes, RouteRequest_max_journeys = mj,
        RouteRequest_is_reversed = False\<rparr>
   \<and> map_sum id (map RouteResponse_routeKey)
       (get_train_routes echo_rail_upstream []
          \<lparr>RouteRequest_routes =
             [\<lparr>Route_fromStation = lit ''A'', Route_toStation = lit ''B'',
               Route_fromStationCode = Some (lit ''ASD''),
               Route_toStationCode = Some (lit ''UT'')\<rparr>],
           RouteRequest_max_journeys = 5, RouteRequest_is_reversed = True\<rparr>)
     = Inr [lit ''B-A'']
   \<and> map_sum id (map RouteResponse_routeKey)
       (get_train_routes echo_rail_upstream []
          \<lparr>RouteRequest_routes =
             [\<lparr>Route_fromStation = lit ''B'', Route_toStation = lit ''A'',
               Route_fromStationCode = Some (lit ''UT''),
               Route_toStationCode = Some (lit ''ASD'')\<rparr>],
           RouteRequest_max_journeys = 5, RouteRequest_is_reversed = False\<rparr>)
     = Inr [lit ''B-A'']
   \<and> map_sum id (map (map Trip_status \<circ> RouteResponse_trips))
       (get_train_routes echo_rail_upstream []
          \<lparr>RouteRequest_routes =
             [\<lparr>Route_fromStation = lit ''A'', Route_toStation = lit ''B'',
               Route_fromStationCode = Some (lit ''ASD''),
               Route_toStationCode = Some (lit ''UT'')\<rparr>],
           RouteRequest_max_journeys = 5, RouteRequest_is_reversed = True\<rparr>)
     = Inr [[lit ''https://gateway.apiportal.ns.nl/reisinformatie-api/api/v3/trips?fromStation=B&toStation=A&dateTime=&searchForArrival=false'']]
   \<and> map_sum id (map (map Disruption_id \<circ> RouteResponse_disruptions))
       (get_train_routes echo_rail_upstream []
          \<lparr>RouteRequest_routes =
             [\<lparr>Route_fromStation = lit ''A'', Route_toStation = lit ''B'',
               Route_fromStationCode = Some (lit ''ASD''),
               Route_toStationCode = Some (lit ''UT'')\<rparr>],
           RouteRequest_max_journeys = 5, RouteRequest_is_reversed = True\<rparr>)
     = Inr [[lit ''https://gateway.apiportal.ns.nl/disruptions/v3/station/UT'',
             lit ''https://gateway.apiportal.ns.nl/disruptions/v3/station/ASD'']]"
proof (intro conjI impI)
  assume a: "get_train_routes up now request = Inr out \<and> RouteRequest_is_reversed request
      \<and> i < length (RouteRequest_routes request)"
  then have out: "get_train_routes up now request = Inr out"
    and rv: "RouteRequest_is_reversed request = True"
    and i: "i < length (RouteRequest_routes request)" by simp_all
  let ?route = "RouteRequest_routes request ! i"
  from get_train_routes_nth [OF out i] obtain data found where
    d: "trip_search_call up now request i = Response None data"
    and key: "RouteResponse_routeKey (out ! i) = route_key True ?route"
    and trips: "RouteResponse_trips (out ! i)
                  = transformed_trips (RouteRequest_max_journeys request) data"
    and len: "length found = length (station_codes True ?route)"
    and each: "\<forall>j < length (station_codes True ?route).
                 station_disruptions (disruption_call up request i j) = Inr (found ! j)"
    and ds: "RouteResponse_disruptions (out ! i) = concat found"
    unfolding rv by blast
  show "RouteResponse_routeKey (out ! i)
        = Route_toStation ?route @ lit ''-'' @ Route_fromStation ?route"
    by (simp add: key route_key_def actual_from_station_def actual_to_station_def)
  have d': "get_trips up (calls_made True (take i (RouteRequest_routes request)))
            (lit ''https://gateway.apiportal.ns.nl/reisinformatie-api/api/v3/trips''
             @ lit ''?fromStation='' @ Route_toStation ?route
             @ lit ''&toStation='' @ Route_fromStation ?route
             @ lit ''&dateTime='' @ now
             @ lit ''&searchForArrival=false'')
            = Response None data"
    using d by (simp add: trip_search_call_def rv trips_url_def actual_from_station_def
        actual_to_station_def)
  have len': "length found = length (station_codes False (swap_stations ?route))"
    using len by (simp add: reversed_parts)
  have each': "\<forall>j < length found.
              station_disruptions
                (get_disruptions up (calls_made True (take i (RouteRequest_routes request)) + 1 + j)
                   (disruption_url (station_codes False (swap_stations ?route) ! j)))
                = Inr (found ! j)"
    using each len by (simp add: disruption_call_def rv reversed_parts)
  from d' trips len' each' ds
  show "\<exists>data found.
          get_trips up (calls_made True (take i (RouteRequest_routes request)))
            (lit ''https://gateway.apiportal.ns.nl/reisinformatie-api/api/v3/trips''
             @ lit ''?fromStation='' @ Route_toStation ?route
             @ lit ''&toStation='' @ Route_fromStation ?route
             @ lit ''&dateTime='' @ now
             @ lit ''&searchForArrival=false'')
            = Response None data
        \<and> RouteResponse_trips (out ! i)
            = transformed_trips (RouteRequest_max_journeys request) data
        \<and> length found = length (station_codes False (swap_stations ?route))
        \<and> (\<forall>j < length found.
              station_disruptions
                (get_disruptions up (calls_made True (take i (RouteRequest_routes request)) + 1 + j)
                   (disruption_url (station_codes False (swap_stations ?route) ! j)))
                = Inr (found ! j))
        \<and> RouteResponse_disruptions (out ! i) = concat found"
    by blast
qed (simp_all add: get_train_routes_def rail_loop_reversed rail_eval2)

theorem reversed_swaps_stations_witness:
  "\<exists>out. get_train_routes echo_rail_upstream [] reversed_request = Inr out
        \<and> RouteRequest_is_reversed reversed_request
        \<and> 0 < length (RouteRequest_routes reversed_request)
        \<and> RouteResponse_routeKey (out ! 0) = lit ''B-A''"
proof -
  obtain out where h: "get_train_routes echo_rail_upstream [] reversed_request = Inr out"
    by (simp add: rail_eval2)
  have r: "RouteRequest_is_reversed reversed_request"
    and l: "0 < length (RouteRequest_routes reversed_request)"
    by (simp_all add: reversed_request_def)
  from reversed_swaps_stations [of echo_rail_upstream "[]" reversed_request out 0] h r l
  have "RouteResponse_routeKey (out ! 0)
        = Route_toStation (RouteRequest_routes reversed_request ! 0) @ lit ''-''
          @ Route_fromStation (RouteRequest_routes reversed_request ! 0)"
    by blast
  then have "RouteResponse_routeKey (out ! 0) = lit ''B-A''"
    by (simp add: reversed_request_def example_route_def lit_def)
  with h r l show ?thesis by (intro exI [of _ out]) simp
qed

subsection \<open>The legs of a trip\<close>

lemma str_or_first_non_empty:
  "str_or a (str_or b c) = first_non_empty [a, b] c"
  by (cases a; cases b) (auto simp: str_or_def)

lemma transform_leg_name:
  "Leg_name (transform_leg l) =
     first_non_empty [dict_get (or_empty (ns_leg_product l)) ''displayName'',
                      dict_get (or_empty (ns_leg_product l)) ''longCategoryName''] (lit ''Train'')"
  by (simp add: transform_leg_def str_or_first_non_empty)

lemma transform_leg_time:
  "Leg_plannedDepartureTime (transform_leg l) =
     first_non_empty [dict_get (or_empty (ns_leg_origin l)) ''plannedDateTime'',
                      dict_get (or_empty (ns_leg_origin l)) ''actualDateTime''] []"
  by (simp add: transform_leg_def str_or_first_non_empty)

lemma transform_trip_legs:
  "Trip_legs (transform_trip i t) = map transform_leg (upstream_legs t)"
  by (simp add: transform_trip_def upstream_legs_def split: option.splits)

text \<open>
  C4. Every leg of every trip in a response is the transformation of a leg of an upstream
  trip; its name is the first non-empty of the product's \<open>displayName\<close> and
  \<open>longCategoryName\<close>, else \<open>Train\<close> (so \<open>Train\<close> when both are absent), and its planned
  departure time is the first non-empty of the origin's \<open>plannedDateTime\<close> and
  \<open>actualDateTime\<close>, else the empty string.
\<close>

theorem leg_name_and_departure_fallback:
  assumes "get_train_routes up now request = Inr out" and "response \<in> set out"
    and "trip \<in> set (RouteResponse_trips response)" and "leg \<in> set (Trip_legs trip)"
  shows "\<exists>n url data upstream_trip upstream_leg.
           get_trips up n url = Response None data
         \<and> upstream_trip \<in> set (upstream_trips data)
         \<and> upstream_leg \<in> set (upstream_legs upstream_trip)
         \<and> leg = transform_leg upstream_leg
         \<and> Leg_name leg =
             first_non_empty
               [dict_get (or_empty (ns_leg_product upstream_leg)) ''displayName'',
                dict_get (or_empty (ns_leg_product upstream_leg)) ''longCategoryName'']
               (lit ''Train'')
         \<and> Leg_plannedDepartureTime leg =
             first_non_empty
               [dict_get (or_empty (ns_leg_origin upstream_leg)) ''plannedDateTime'',
                dict_get (or_empty (ns_leg_origin upstream_leg)) ''actualDateTime'']
               []
         \<and> (dict_get (or_empty (ns_leg_product upstream_leg)) ''displayName'' = None
            \<and> dict_get (or_empty (ns_leg_product upstream_leg)) ''longCategoryName'' = None
            \<longrightarrow> Leg_name leg = lit ''Train'')"
proof -
  from response_of_route [OF assms(1,2)] obtain k where
    k: "k < length (RouteRequest_routes request)" and r: "response = out ! k"
    by blast
  from get_train_routes_nth [OF assms(1) k] r obtain n url data where
    d: "get_trips up n url = Response None data"
    and t: "RouteResponse_trips response
              = transformed_trips (RouteRequest_max_journeys request) data"
    unfolding trip_search_call_def by blast
  from assms(3) obtain i where i: "i < length (RouteResponse_trips response)"
    and ti: "RouteResponse_trips response ! i = trip"
    by (auto simp: in_set_conv_nth)
  from i have i': "i < length (upstream_trips data)"
    by (auto simp: t transformed_trips_length slice_to_def split: if_splits)
  from i ti have trip: "trip = transform_trip (int i) (upstream_trips data ! i)"
    by (simp add: t transformed_trips_nth)
  from i' have mem: "upstream_trips data ! i \<in> set (upstream_trips data)" by simp
  from assms(4) obtain l where l: "l \<in> set (upstream_legs (upstream_trips data ! i))"
    and leg: "leg = transform_leg l"
    by (auto simp: trip transform_trip_legs)
  have name: "Leg_name leg =
             first_non_empty
               [dict_get (or_empty (ns_leg_product l)) ''displayName'',
                dict_get (or_empty (ns_leg_product l)) ''longCategoryName'']
               (lit ''Train'')"
    by (simp add: leg transform_leg_name)
  have time: "Leg_plannedDepartureTime leg =
             first_non_empty
               [dict_get (or_empty (ns_leg_origin l)) ''plannedDateTime'',
                dict_get (or_empty (ns_leg_origin l)) ''actualDateTime'']
               []"
    by (simp add: leg transform_leg_time)
  have train: "dict_get (or_empty (ns_leg_product l)) ''displayName'' = None
            \<and> dict_get (or_empty (ns_leg_product l)) ''longCategoryName'' = None
            \<longrightarrow> Leg_name leg = lit ''Train''"
    by (simp add: name)
  from d mem l leg name time train show ?thesis by blast
qed

theorem leg_name_and_departure_fallback_witness:
  "\<exists>out response trip leg.
     get_train_routes example_rail_upstream [] (example_request 2) = Inr out
   \<and> response \<in> set out
   \<and> trip \<in> set (RouteResponse_trips response)
   \<and> leg \<in> set (Trip_legs trip)
   \<and> Leg_name leg = lit ''Intercity''
   \<and> Leg_plannedDepartureTime leg = lit ''12:00''"
proof -
  obtain out where h1: "get_train_routes example_rail_upstream [] (example_request 2) = Inr out"
    and ne: "out \<noteq> []" and ne2: "RouteResponse_trips (hd out) \<noteq> []"
    and ne3: "Trip_legs (hd (RouteResponse_trips (hd out))) = [transform_leg example_leg]"
    by (simp add: rail_eval transform_trip_def example_trip_def)
  from ne have h2: "hd out \<in> set out" by simp
  from ne2 have h3: "hd (RouteResponse_trips (hd out)) \<in> set (RouteResponse_trips (hd out))"
    by simp
  from ne3 have h4: "transform_leg example_leg \<in> set (Trip_legs (hd (RouteResponse_trips (hd out))))"
    by simp
  from leg_name_and_departure_fallback [OF h1 h2 h3 h4]
  have "Leg_name (transform_leg example_leg) = lit ''Intercity''
      \<and> Leg_plannedDepartureTime (transform_leg example_leg) = lit ''12:00''"
    by (simp add: transform_leg_def example_leg_def str_or_def dict_get_def or_empty_def lit_def)
  with h1 h2 h3 h4 show ?thesis by blast
qed

subsection \<open>Disruptions\<close>

lemma transform_disruption_active:
  "transform_disruption d = Inr x \<Longrightarrow> Disruption_isActive x"
  by (auto simp: transform_disruption_def split: sum.splits)

lemma active_disruptions_Inr:
  "active_disruptions ds = Inr xs \<Longrightarrow>
     (\<forall>x \<in> set xs. \<exists>d. Obj d \<in> set ds \<and> ns_disruption_isActive d = Some True
                       \<and> transform_disruption d = Inr x)
   \<and> (\<forall>d. Obj d \<in> set ds \<and> ns_disruption_isActive d = Some True \<longrightarrow>
            (\<exists>x. transform_disruption d = Inr x \<and> x \<in> set xs))"
proof (induction ds arbitrary: xs rule: active_disruptions.induct)
  case 1
  then show ?case by simp
next
  case (2 rest)
  then show ?case by simp
next
  case (3 d rest)
  show ?case
  proof (cases "is_active d")
    case True
    with "3.prems" obtain x ys where
      x: "transform_disruption d = Inr x" and ys: "active_disruptions rest = Inr ys"
      and xs: "xs = x # ys"
      by (auto split: sum.splits)
    from "3.IH"(1) [OF True x ys] True x xs show ?thesis
      by (auto simp: is_active_def)
  next
    case False
    with "3.prems" have "active_disruptions rest = Inr xs" by simp
    from "3.IH"(2) [OF False this] False show ?thesis
      by (auto simp: is_active_def)
  qed
qed

lemma station_disruptions_Inr:
  assumes "station_disruptions answer = Inr xs"
  shows "(\<forall>x \<in> set xs. \<exists>data d. answer = Response None (Obj data)
            \<and> Obj d \<in> set (upstream_disruptions data)
            \<and> ns_disruption_isActive d = Some True \<and> transform_disruption d = Inr x)"
    and "\<And>data d. answer = Response None (Obj data) \<Longrightarrow>
            Obj d \<in> set (upstream_disruptions data) \<Longrightarrow>
            ns_disruption_isActive d = Some True \<Longrightarrow>
            \<exists>x. transform_disruption d = Inr x \<and> x \<in> set xs"
  using assms
  by (auto simp: station_disruptions_def upstream_disruptions_def
      split: http.splits option.splits obj.splits dest!: active_disruptions_Inr)

text \<open>
  C5. The disruptions of a response are, station code after station code, what the
  lookups for the route's station codes contribute, duplicates kept. Every one of them is
  marked active and is the transformation of an upstream disruption whose \<open>isActive\<close> is
  true; and every upstream disruption with \<open>isActive\<close> true that a lookup of the route
  returned is among them.
\<close>

theorem only_active_disruptions:
  assumes "get_train_routes up now request = Inr out" and "response \<in> set out"
  shows "\<exists>route n found.
           route \<in> set (RouteRequest_routes request)
         \<and> length found = length (station_codes (RouteRequest_is_reversed request) route)
         \<and> (\<forall>j < length (station_codes (RouteRequest_is_reversed request) route).
               station_disruptions
                 (get_disruptions up (n + j)
                    (disruption_url (station_codes (RouteRequest_is_reversed request) route ! j)))
                 = Inr (found ! j))
         \<and> RouteResponse_disruptions response = concat found
         \<and> (\<forall>x \<in> set (RouteResponse_disruptions response).
               Disruption_isActive x
             \<and> (\<exists>m url data d.
                   get_disruptions up m url = Response None (Obj data)
                 \<and> Obj d \<in> set (upstream_disruptions data)
                 \<and> ns_disruption_isActive d = Some True
                 \<and> transform_disruption d = Inr x))
         \<and> (\<forall>j < length (station_codes (RouteRequest_is_reversed request) route). \<forall>data.
               get_disruptions up (n + j)
                 (disruption_url (station_codes (RouteRequest_is_reversed request) route ! j))
                 = Response None (Obj data) \<longrightarrow>
               (\<forall>d. Obj d \<in> set (upstream_disruptions data)
                     \<and> ns_disruption_isActive d = Some True \<longrightarrow>
                  (\<exists>x. transform_disruption d = Inr x
                       \<and> x \<in> set (RouteResponse_disruptions response))))"
proof -
  let ?rv = "RouteRequest_is_reversed request"
  from response_of_route [OF assms] obtain i where
    i: "i < length (RouteRequest_routes request)" and r: "response = out ! i"
    by blast
  define route where "route = RouteRequest_routes request ! i"
  define n where "n = calls_made ?rv (take i (RouteRequest_routes request)) + 1"
  define codes where "codes = station_codes ?rv route"
  from get_train_routes_nth [OF assms(1) i] r obtain found where
    len: "length found = length codes"
    and each: "\<forall>j < length codes.
                 station_disruptions (get_disruptions up (n + j) (disruption_url (codes ! j)))
                   = Inr (found ! j)"
    and eq: "RouteResponse_disruptions response = concat found"
    unfolding disruption_call_def route_def n_def codes_def by blast
  have mem: "route \<in> set (RouteRequest_routes request)"
    using i by (simp add: route_def)
  have only: "\<forall>x \<in> set (RouteResponse_disruptions response).
               Disruption_isActive x
             \<and> (\<exists>m url data d.
                   get_disruptions up m url = Response None (Obj data)
                 \<and> Obj d \<in> set (upstream_disruptions data)
                 \<and> ns_disruption_isActive d = Some True
                 \<and> transform_disruption d = Inr x)"
  proof
    fix x assume "x \<in> set (RouteResponse_disruptions response)"
    then obtain ys where "ys \<in> set found" and xy: "x \<in> set ys"
      by (auto simp: eq)
    then obtain j where j: "j < length found" and x: "x \<in> set (found ! j)"
      by (auto simp: in_set_conv_nth)
    from j len each have
      st: "station_disruptions (get_disruptions up (n + j) (disruption_url (codes ! j)))
             = Inr (found ! j)" by simp
    from station_disruptions_Inr(1) [OF st] x obtain data d where
      "get_disruptions up (n + j) (disruption_url (codes ! j)) = Response None (Obj data)"
      "Obj d \<in> set (upstream_disruptions data)" "ns_disruption_isActive d = Some True"
      "transform_disruption d = Inr x"
      by blast
    then show "Disruption_isActive x
             \<and> (\<exists>m url data d.
                   get_disruptions up m url = Response None (Obj data)
                 \<and> Obj d \<in> set (upstream_disruptions data)
                 \<and> ns_disruption_isActive d = Some True
                 \<and> transform_disruption d = Inr x)"
      using transform_disruption_active by blast
  qed
  have appear: "\<forall>j < length codes. \<forall>data.
               get_disruptions up (n + j) (disruption_url (codes ! j)) = Response None (Obj data) \<longrightarrow>
               (\<forall>d. Obj d \<in> set (upstream_disruptions data)
                     \<and> ns_disruption_isActive d = Some True \<longrightarrow>
                  (\<exists>x. transform_disruption d = Inr x
                       \<and> x \<in> set (RouteResponse_disruptions response)))"
  proof (intro allI impI)
    fix j data d
    assume j: "j < length codes"
      and a: "get_disruptions up (n + j) (disruption_url (codes ! j)) = Response None (Obj data)"
      and d: "Obj d \<in> set (upstream_disruptions data) \<and> ns_disruption_isActive d = Some True"
    from j each have
      st: "station_disruptions (get_disruptions up (n + j) (disruption_url (codes ! j)))
             = Inr (found ! j)" by simp
    from station_disruptions_Inr(2) [OF st a] d obtain x where
      x: "transform_disruption d = Inr x" "x \<in> set (found ! j)" by blast
    from j len have "found ! j \<in> set found" by simp
    with x show "\<exists>x. transform_disruption d = Inr x
                       \<and> x \<in> set (RouteResponse_disruptions response)"
      by (auto simp: eq)
  qed
  from mem len each eq only appear show ?thesis
    unfolding codes_def by blast
qed

theorem only_active_disruptions_witness:
  "\<exists>out response.
     get_train_routes example_rail_upstream [] (example_request 2) = Inr out
   \<and> response \<in> set out
   \<and> map Disruption_id (RouteResponse_disruptions response) = [lit ''1'']
   \<and> map Disruption_isActive (RouteResponse_disruptions response) = [True]"
proof -
  obtain out where h1: "get_train_routes example_rail_upstream [] (example_request 2) = Inr out"
    and ne: "out \<noteq> []"
    and ds: "map Disruption_id (RouteResponse_disruptions (hd out)) = [lit ''1'']"
    by (simp add: rail_eval)
  from ne have h2: "hd out \<in> set out" by simp
  from only_active_disruptions [OF h1 h2]
  have "\<forall>x \<in> set (RouteResponse_disruptions (hd out)). Disruption_isActive x" by blast
  with ds have "map Disruption_isActive (RouteResponse_disruptions (hd out)) = [True]"
    by (cases "RouteResponse_disruptions (hd out)") auto
  with h1 h2 ds have "get_train_routes example_rail_upstream [] (example_request 2) = Inr out
   \<and> hd out \<in> set out
   \<and> map Disruption_id (RouteResponse_disruptions (hd out)) = [lit ''1'']
   \<and> map Disruption_isActive (RouteResponse_disruptions (hd out)) = [True]"
    by simp
  then show ?thesis by (intro exI [of _ out] exI [of _ "hd out"])
qed

subsection \<open>Failures of the railway API\<close>

text \<open>
  C6. The handler does not swallow every failure of a disruption lookup. Against the
  upstream whose lookups answer with status 200 and the body \<^verbatim>\<open>{"payload": null}\<close>, the
  trip search of the route succeeds and yet the request ends in an \<^verbatim>\<open>AttributeError\<close>, which
  the \<^verbatim>\<open>except\<close> clauses do not catch: no trips are returned. A lookup that times out is
  swallowed, as the run against the other upstream shows: the three trips are returned.
\<close>

theorem malformed_lookup_aborts_request:
  "\<not> failed (trip_search_call malformed_lookup_upstream [] (example_request 5) 0)
   \<and> disruption_call malformed_lookup_upstream (example_request 5) 0 0
       = Response None (Obj \<lparr>ns_payload = Some NonObj\<rparr>)
   \<and> get_train_routes malformed_lookup_upstream [] (example_request 5) = Inl AttributeError
   \<and> failed (disruption_call example_rail_upstream (example_request 5) 0 0)
   \<and> map_sum id (map (length \<circ> RouteResponse_trips))
       (get_train_routes example_rail_upstream [] (example_request 5)) = Inr [3]"
  by (simp add: rail_eval malformed_lookup_upstream_def trip_search_call_def
      disruption_call_def calls_made_def failed_def)

subsection \<open>The traffic level\<close>

lemma float_literals: "binary64 (6 / 5) < binary64 (7 / 5)" "1 \<le> binary64 (6 / 5)" "binary64 1 = 1"
  "binary64 (7 / 5) < binary64 (3 / 2)" "binary64 (6 / 5) < binary64 (13 / 10)"
  "binary64 (13 / 10) \<le> binary64 (7 / 5)"
  by code_simp+

lemma small_no_overflow: "\<bar>x\<bar> \<le> 2 \<Longrightarrow> \<not> overflows x"
  by (simp add: overflows_def pow2_def)

lemma ratio_exact:
  assumes "b \<noteq> 0" and "q * a = p * b" and "q \<noteq> 0"
  shows "(of_int a :: rat) / of_int b = of_int p / of_int q"
proof -
  from assms(2) have "(of_int q :: rat) * of_int a = of_int p * of_int b"
    by (metis of_int_mult)
  with assms(1,3) show ?thesis by (simp add: field_simps)
qed

lemma traffic_level_Inr:
  "traffic_level element = Inr traffic \<longleftrightarrow>
     (\<exists>duration_value ratio.
        value_of ''duration'' (gm_duration element) = Inr duration_value
      \<and> int_truediv (value_or (gm_duration_in_traffic element) duration_value) duration_value
          = Inr ratio
      \<and> traffic = traffic_of_ratio ratio)"
  by (auto simp: traffic_level_def and_then_def split: sum.splits)

lemma traffic_level_exact:
  assumes "value_of ''duration'' (gm_duration element) = Inr b" and "b \<noteq> 0"
    and "q * value_or (gm_duration_in_traffic element) b = p * b" and "q \<noteq> 0"
    and "\<bar>of_int p / of_int q :: rat\<bar> \<le> 2"
  shows "traffic_level element = Inr (traffic_of_ratio (binary64 (of_int p / of_int q)))"
  using assms ratio_exact [OF assms(2,3,4)] small_no_overflow [OF assms(5)]
  by (simp add: traffic_level_def and_then_def int_truediv_def)


lemma car_trip_response_Inr:
  "car_trip_response up U key n route = Inr response \<Longrightarrow>
     \<exists>data element distance duration ddata steps road_names traffic cost.
       get_distance_matrix up n (distance_matrix_url key route) = Response None data
     \<and> gm_matrix_status data = Some (lit ''OK'')
     \<and> matrix_element data = Inr element
     \<and> text_of ''distance'' (gm_distance element) = Inr distance
     \<and> text_of ''duration'' (gm_duration element) = Inr duration
     \<and> get_directions up (n + 1) (directions_url key route) = Response None ddata
     \<and> gm_directions_status ddata = Some (lit ''OK'')
     \<and> directions_steps ddata = Inr steps
     \<and> collect_road_names U steps [] = Inr road_names
     \<and> traffic_level element = Inr traffic
     \<and> fuel_cost U distance = Inr cost
     \<and> response =
         \<lparr>CarTripResponse_id = CarRoute_id route,
          CarTripResponse_from_location = CarRoute_originName route,
          CarTripResponse_to = CarRoute_destinationName route,
          CarTripResponse_distance = distance,
          CarTripResponse_duration = duration,
          CarTripResponse_durationInTraffic = text_or (gm_duration_in_traffic element) duration,
          CarTripResponse_traffic = traffic,
          CarTripResponse_route = route_description road_names,
          CarTripResponse_fuelCost = cost,
          CarTripResponse_status = lit ''NORMAL''\<rparr>"
  unfolding car_trip_response_def and_then_def fetch_json_def check_status_def subscript_def
  by (auto split: sum.splits http.splits option.splits if_splits)


lemma value_of_element_with:
  "value_of ''duration'' (gm_duration (element_with b t)) = Inr b"
  "value_or (gm_duration_in_traffic (element_with b (Some a))) b = a"
  "value_or (gm_duration_in_traffic (element_with b None)) b = b"
  by (simp_all add: element_with_def value_of_def value_or_def and_then_def subscript_def)

text \<open>
  C7. When the traffic level of an element is computed, the duration value is not zero
  and the level is decided by the ratio, the float quotient of the duration-in-traffic
  value (the duration value when absent) by the duration value, against the float
  literals: above \<open>1.4\<close> it is \<open>Heavy\<close>, above \<open>1.2\<close> and at most \<open>1.4\<close> it is
  \<open>Moderate\<close>, at most \<open>1.2\<close> it is \<open>Light\<close>. Values in the exact proportion 7 to 5 give
  \<open>Moderate\<close>, values in the proportion 6 to 5 give \<open>Light\<close>, and an absent
  duration-in-traffic gives \<open>Light\<close>. The traffic field of every response of the car
  handler is this level of the first element of the first row of the distance matrix. The
  ratios 1.5, 1.3 and 1.0 give \<open>Heavy\<close>, \<open>Moderate\<close> and \<open>Light\<close>.
\<close>

theorem traffic_classification:
  "(traffic_level element = Inr traffic \<longrightarrow>
      (\<exists>duration_value ratio.
         value_of ''duration'' (gm_duration element) = Inr duration_value
       \<and> duration_value \<noteq> 0
       \<and> ratio = binary64 (of_int (value_or (gm_duration_in_traffic element) duration_value)
                            / of_int duration_value)
       \<and> (binary64 (14 / 10) < ratio \<longrightarrow> traffic = lit ''Heavy'')
       \<and> (binary64 (12 / 10) < ratio \<and> ratio \<le> binary64 (14 / 10)
            \<longrightarrow> traffic = lit ''Moderate'')
       \<and> (ratio \<le> binary64 (12 / 10) \<longrightarrow> traffic = lit ''Light'')))
   \<and> (value_of ''duration'' (gm_duration element) = Inr b \<and> b \<noteq> 0
        \<and> 5 * value_or (gm_duration_in_traffic element) b = 7 * b
        \<longrightarrow> traffic_level element = Inr (lit ''Moderate''))
   \<and> (value_of ''duration'' (gm_duration element) = Inr b \<and> b \<noteq> 0
        \<and> 5 * value_or (gm_duration_in_traffic element) b = 6 * b
        \<longrightarrow> traffic_level element = Inr (lit ''Light''))
   \<and> (value_of ''duration'' (gm_duration element) = Inr b \<and> b \<noteq> 0
        \<and> gm_duration_in_traffic element = None
        \<longrightarrow> traffic_level element = Inr (lit ''Light''))
   \<and> (car_trip_response up U key n route = Inr response \<longrightarrow>
        (\<exists>data el.
           get_distance_matrix up n (distance_matrix_url key route) = Response None data
         \<and> matrix_element data = Inr el
         \<and> traffic_level el = Inr (CarTripResponse_traffic response)))
   \<and> traffic_level (element_with 1800 (Some 2700)) = Inr (lit ''Heavy'')
   \<and> traffic_level (element_with 1800 (Some 2340)) = Inr (lit ''Moderate'')
   \<and> traffic_level (element_with 1800 (Some 1800)) = Inr (lit ''Light'')"
proof (intro conjI impI)
  assume "traffic_level element = Inr traffic"
  then obtain duration_value ratio where
    v: "value_of ''duration'' (gm_duration element) = Inr duration_value"
    and d: "int_truediv (value_or (gm_duration_in_traffic element) duration_value) duration_value
          = Inr ratio"
    and t: "traffic = traffic_of_ratio ratio"
    by (auto simp: traffic_level_Inr)
  from d have nz: "duration_value \<noteq> 0"
    and r: "ratio = binary64 (of_int (value_or (gm_duration_in_traffic element) duration_value)
                            / of_int duration_value)"
    by (auto simp: int_truediv_def split: if_splits)
  have "(binary64 (14 / 10) < ratio \<longrightarrow> traffic = lit ''Heavy'')
       \<and> (binary64 (12 / 10) < ratio \<and> ratio \<le> binary64 (14 / 10)
            \<longrightarrow> traffic = lit ''Moderate'')
       \<and> (ratio \<le> binary64 (12 / 10) \<longrightarrow> traffic = lit ''Light'')"
    using float_literals(1) by (auto simp: t traffic_of_ratio_def)
  with v nz r show "\<exists>duration_value ratio.
         value_of ''duration'' (gm_duration element) = Inr duration_value
       \<and> duration_value \<noteq> 0
       \<and> ratio = binary64 (of_int (value_or (gm_duration_in_traffic element) duration_value)
                            / of_int duration_value)
       \<and> (binary64 (14 / 10) < ratio \<longrightarrow> traffic = lit ''Heavy'')
       \<and> (binary64 (12 / 10) < ratio \<and> ratio \<le> binary64 (14 / 10)
            \<longrightarrow> traffic = lit ''Moderate'')
       \<and> (ratio \<le> binary64 (12 / 10) \<longrightarrow> traffic = lit ''Light'')"
    by blast
next
  assume "value_of ''duration'' (gm_duration element) = Inr b \<and> b \<noteq> 0
        \<and> 5 * value_or (gm_duration_in_traffic element) b = 7 * b"
  then have v: "value_of ''duration'' (gm_duration element) = Inr b" and nz: "b \<noteq> 0"
    and e: "5 * value_or (gm_duration_in_traffic element) b = 7 * b" by simp_all
  have "traffic_level element = Inr (traffic_of_ratio (binary64 (of_int 7 / of_int 5)))"
    by (rule traffic_level_exact [OF v nz e]) simp_all
  then show "traffic_level element = Inr (lit ''Moderate'')"
    using float_literals(1) by (simp add: traffic_of_ratio_def)
next
  assume "value_of ''duration'' (gm_duration element) = Inr b \<and> b \<noteq> 0
        \<and> 5 * value_or (gm_duration_in_traffic element) b = 6 * b"
  then have v: "value_of ''duration'' (gm_duration element) = Inr b" and nz: "b \<noteq> 0"
    and e: "5 * value_or (gm_duration_in_traffic element) b = 6 * b" by simp_all
  have "traffic_level element = Inr (traffic_of_ratio (binary64 (of_int 6 / of_int 5)))"
    by (rule traffic_level_exact [OF v nz e]) simp_all
  then show "traffic_level element = Inr (lit ''Light'')"
    using float_literals(1) by (simp add: traffic_of_ratio_def)
next
  assume a: "value_of ''duration'' (gm_duration element) = Inr b \<and> b \<noteq> 0
        \<and> gm_duration_in_traffic element = None"
  then have v: "value_of ''duration'' (gm_duration element) = Inr b" and nz: "b \<noteq> 0"
    and e: "1 * value_or (gm_duration_in_traffic element) b = 1 * b"
    by (simp_all add: value_or_def)
  have "traffic_level element = Inr (traffic_of_ratio (binary64 (of_int 1 / of_int 1)))"
    by (rule traffic_level_exact [OF v nz e]) simp_all
  then show "traffic_level element = Inr (lit ''Light'')"
    using float_literals(1,2,3) by (simp add: traffic_of_ratio_def)
next
  assume "car_trip_response up U key n route = Inr response"
  from car_trip_response_Inr [OF this]
  show "\<exists>data el.
           get_distance_matrix up n (distance_matrix_url key route) = Response None data
         \<and> matrix_element data = Inr el
         \<and> traffic_level el = Inr (CarTripResponse_traffic response)"
    by auto
next
  have "traffic_level (element_with 1800 (Some 2700))
          = Inr (traffic_of_ratio (binary64 (of_int 3 / of_int 2)))"
    by (rule traffic_level_exact [where b = 1800]) (simp_all add: value_of_element_with)
  then show "traffic_level (element_with 1800 (Some 2700)) = Inr (lit ''Heavy'')"
    using float_literals by (simp add: traffic_of_ratio_def)
next
  have "traffic_level (element_with 1800 (Some 2340))
          = Inr (traffic_of_ratio (binary64 (of_int 13 / of_int 10)))"
    by (rule traffic_level_exact [where b = 1800]) (simp_all add: value_of_element_with)
  then show "traffic_level (element_with 1800 (Some 2340)) = Inr (lit ''Moderate'')"
    using float_literals by (simp add: traffic_of_ratio_def)
next
  have "traffic_level (element_with 1800 (Some 1800))
          = Inr (traffic_of_ratio (binary64 (of_int 1 / of_int 1)))"
    by (rule traffic_level_exact [where b = 1800]) (simp_all add: value_of_element_with)
  then show "traffic_level (element_with 1800 (Some 1800)) = Inr (lit ''Light'')"
    using float_literals by (simp add: traffic_of_ratio_def)
qed

theorem traffic_classification_witness:
  "value_of ''duration'' (gm_duration (element_with 1800 (Some 2520))) = Inr 1800
   \<and> (1800 :: int) \<noteq> 0
   \<and> 5 * value_or (gm_duration_in_traffic (element_with 1800 (Some 2520))) 1800 = 7 * 1800
   \<and> traffic_level (element_with 1800 (Some 2520)) = Inr (lit ''Moderate'')"
  using traffic_classification [of "element_with 1800 (Some 2520)" undefined 1800]
  by (simp add: value_of_element_with)

text \<open>
  C10, as amended. For a strictly positive duration value the traffic level is computed
  whenever the quotient of the two values is within the range of a float; beyond it the
  division raises \<^verbatim>\<open>OverflowError\<close>. A duration value of 0 raises \<^verbatim>\<open>ZeroDivisionError\<close>,
  and the handler, run against an upstream that reports the duration 0, ends in that error
  and not in its own HTTP error.
\<close>

theorem traffic_ratio_defined:
  "(value_of ''duration'' (gm_duration element) = Inr b \<and> 0 < b
      \<and> \<not> overflows (of_int (value_or (gm_duration_in_traffic element) b) / of_int b)
      \<longrightarrow> (\<exists>traffic. traffic_level element = Inr traffic))
   \<and> (value_of ''duration'' (gm_duration element) = Inr b \<and> b \<noteq> 0
      \<and> overflows (of_int (value_or (gm_duration_in_traffic element) b) / of_int b)
      \<longrightarrow> traffic_level element = Inl OverflowError)
   \<and> (value_of ''duration'' (gm_duration element) = Inr 0
      \<longrightarrow> traffic_level element = Inl ZeroDivisionError)
   \<and> get_car_routes (car_upstream_with (element_with 0 None)) ascii_db [] example_car_request
       = Inl ZeroDivisionError"
proof (intro conjI impI)
  show "get_car_routes (car_upstream_with (element_with 0 None)) ascii_db [] example_car_request
       = Inl ZeroDivisionError"
    by code_simp
qed (auto simp: traffic_level_def and_then_def int_truediv_def)

theorem traffic_ratio_defined_witness:
  "value_of ''duration'' (gm_duration (element_with 1800 (Some 2520))) = Inr 1800
   \<and> (0 :: int) < 1800
   \<and> \<not> overflows (of_int (value_or (gm_duration_in_traffic (element_with 1800 (Some 2520))) 1800)
                    / of_int 1800)
   \<and> (\<exists>traffic. traffic_level (element_with 1800 (Some 2520)) = Inr traffic)"
  using traffic_ratio_defined [of "element_with 1800 (Some 2520)" 1800]
  by (simp add: value_of_element_with small_no_overflow)

text \<open>
  The duration value 1 is strictly positive, and with the duration-in-traffic value
  \<open>2\<^sup>1\<^sup>0\<^sup>2\<^sup>4\<close> the division raises \<^verbatim>\<open>OverflowError\<close>.
\<close>

theorem traffic_ratio_overflow_counterexample:
  "value_of ''duration'' (gm_duration (element_with 1 (Some (2 ^ 1024)))) = Inr 1
   \<and> (0 :: int) < 1
   \<and> traffic_level (element_with 1 (Some (2 ^ 1024))) = Inl OverflowError"
  by (simp add: traffic_level_def and_then_def int_truediv_def value_of_element_with
      overflows_def pow2_def)

subsection \<open>Road names\<close>

lemma digit_is_word: "is_digit U c \<Longrightarrow> is_word U c"
  by (simp add: is_word_def)

lemma upper_is_word: "is_upper c \<Longrightarrow> is_word U c"
  by (simp add: is_word_def)

lemma char_at_digit:
  "k < length (takeWhile (is_digit U) r) \<Longrightarrow> word_char U (char_at r k)"
proof -
  assume k: "k < length (takeWhile (is_digit U) r)"
  then have "takeWhile (is_digit U) r ! k \<in> set (takeWhile (is_digit U) r)" by simp
  then have "is_digit U (takeWhile (is_digit U) r ! k)" by (rule set_takeWhileD [THEN conjunct2])
  moreover from k have "takeWhile (is_digit U) r ! k = r ! k" by (rule takeWhile_nth)
  moreover from k have "k < length r"
    using length_takeWhile_le [of "is_digit U" r] by simp
  ultimately show ?thesis by (simp add: char_at_def word_char_def digit_is_word)
qed

lemma digits_then_boundary_eq:
  "k \<le> length (takeWhile (is_digit U) r) \<Longrightarrow>
     digits_then_boundary U c r k =
       (if 0 < k \<and> k = length (takeWhile (is_digit U) r) \<and> \<not> word_char U (char_at r k)
        then Some (c # take k r) else None)"
proof (induction k)
  case 0
  then show ?case by simp
next
  case (Suc k)
  then have k: "k < length (takeWhile (is_digit U) r)" by simp
  then have w: "word_char U (char_at r k)" by (rule char_at_digit)
  show ?case
  proof (cases "Suc k = length (takeWhile (is_digit U) r)")
    case True
    then have l: "length (takeWhile (is_digit U) r) = Suc k" by simp
    have "digits_then_boundary U c r k = None"
      using Suc.IH k by (simp add: l)
    with w show ?thesis unfolding l by (simp add: word_boundary_def)
  next
    case False
    with Suc.prems have "Suc k < length (takeWhile (is_digit U) r)" by simp
    then have w': "word_char U (char_at r (Suc k))" by (rule char_at_digit)
    have "digits_then_boundary U c r k = None"
      using Suc.IH k by simp
    with w w' False show ?thesis by (simp add: word_boundary_def)
  qed
qed

lemma char_at_run:
  "char_at r (length (takeWhile P r))
     = (if dropWhile P r = [] then None else Some (hd (dropWhile P r)))"
proof (cases "length (takeWhile P r) < length r")
  case True
  then have "dropWhile P r \<noteq> []" by (simp add: dropWhile_eq_drop)
  moreover from True have "hd (dropWhile P r) = r ! length (takeWhile P r)"
    by (simp add: dropWhile_eq_drop hd_drop_conv_nth)
  ultimately show ?thesis using True by (simp add: char_at_def)
next
  case False
  then have "dropWhile P r = []" by (simp add: dropWhile_eq_drop)
  with False show ?thesis by (simp add: char_at_def)
qed

lemma match_here_iff:
  "match_here U before s = Some m \<longleftrightarrow> (\<exists>post. s = m @ post \<and> road_token U before [] m post)"
proof
  assume a: "match_here U before s = Some m"
  then obtain c r where s: "s = c # r" by (cases s) (auto simp: match_here_def)
  let ?ds = "takeWhile (is_digit U) r"
  from a s have b: "\<not> word_char U before" and u: "is_upper c"
    and d: "digits_then_boundary U c r (length ?ds) = Some m"
    by (auto simp: match_here_def word_boundary_def word_char_def upper_is_word split: if_splits)
  from d have pos: "0 < length ?ds" and e: "\<not> word_char U (char_at r (length ?ds))"
    and m: "m = c # take (length ?ds) r"
    by (auto simp: digits_then_boundary_eq split: if_splits)
  have t: "take (length ?ds) r = ?ds" by (simp add: takeWhile_eq_take [symmetric])
  have "s = m @ dropWhile (is_digit U) r" by (simp add: s m t)
  moreover have "road_token U before [] m (dropWhile (is_digit U) r)"
    using b u pos e
    by (auto simp: road_token_def m t char_at_run list_all_iff dest: set_takeWhileD)
  ultimately show "\<exists>post. s = m @ post \<and> road_token U before [] m post" by blast
next
  assume "\<exists>post. s = m @ post \<and> road_token U before [] m post"
  then obtain post c ds where s: "s = (c # ds) @ post" and m: "m = c # ds"
    and u: "is_upper c" and ne: "ds \<noteq> []" and all: "list_all (is_digit U) ds"
    and b: "\<not> word_char U before"
    and e: "\<not> word_char U (if post = [] then None else Some (hd post))"
    by (auto simp: road_token_def split: list.splits)
  have tw: "takeWhile (is_digit U) (ds @ post) = ds"
  proof (cases post)
    case Nil
    with all show ?thesis by (simp add: list_all_iff)
  next
    case (Cons p ps)
    with e have "\<not> is_digit U p" by (auto simp: word_char_def digit_is_word)
    with all Cons show ?thesis by (simp add: list_all_iff takeWhile_append2)
  qed
  have dw: "dropWhile (is_digit U) (ds @ post) = post"
    using tw takeWhile_dropWhile_id [of "is_digit U" "ds @ post"] by simp
  have "digits_then_boundary U c (ds @ post) (length ds) = Some (c # ds)"
    using ne e char_at_run [of "ds @ post" "is_digit U"]
    by (auto simp: digits_then_boundary_eq tw dw split: if_splits)
  with u b show "match_here U before s = Some m"
    by (simp add: match_here_def s m tw word_boundary_def word_char_def upper_is_word)
qed


lemma road_token_Cons:
  "road_token U before (c # pre) m post \<longleftrightarrow> road_token U (Some c) pre m post"
  by (simp add: road_token_def)

lemma road_token_nonempty: "road_token U before pre m post \<Longrightarrow> m \<noteq> []"
  by (auto simp: road_token_def)

lemma search_from_None:
  "search_from U before s = None \<Longrightarrow>
     \<not> (\<exists>pre m post. s = pre @ m @ post \<and> road_token U before pre m post)"
proof (induction s arbitrary: before)
  case Nil
  then show ?case by (auto dest: road_token_nonempty)
next
  case (Cons c r)
  from Cons.prems have h: "match_here U before (c # r) = None"
    and t: "search_from U (Some c) r = None"
    by (auto split: option.splits)
  show ?case
  proof
    assume "\<exists>pre m post. c # r = pre @ m @ post \<and> road_token U before pre m post"
    then obtain pre m post where d: "c # r = pre @ m @ post"
      and tok: "road_token U before pre m post" by blast
    show False
    proof (cases pre)
      case Nil
      with d tok have "match_here U before (c # r) = Some m"
        by (auto simp: match_here_iff)
      with h show False by simp
    next
      case (Cons c' pre')
      with d tok have "r = pre' @ m @ post" and "road_token U (Some c) pre' m post"
        by (auto simp: road_token_Cons)
      with Cons.IH [OF t] show False by blast
    qed
  qed
qed

lemma search_from_Some:
  "search_from U before s = Some m \<Longrightarrow>
     \<exists>pre post. s = pre @ m @ post \<and> road_token U before pre m post
       \<and> (\<forall>pre' m' post'. s = pre' @ m' @ post' \<and> road_token U before pre' m' post'
             \<longrightarrow> length pre \<le> length pre')"
proof (induction s arbitrary: before)
  case Nil
  then show ?case by simp
next
  case (Cons c r)
  show ?case
  proof (cases "match_here U before (c # r)")
    case (Some m0)
    with Cons.prems have "m0 = m" by simp
    with Some obtain post where "c # r = [] @ m @ post" and "road_token U before [] m post"
      by (auto simp: match_here_iff)
    then show ?thesis by (intro exI [of _ "[]"] exI [of _ post]) simp
  next
    case None
    with Cons.prems have t: "search_from U (Some c) r = Some m" by simp
    from Cons.IH [OF t] obtain pre post where d: "r = pre @ m @ post"
      and tok: "road_token U (Some c) pre m post"
      and least: "\<forall>pre' m' post'. r = pre' @ m' @ post' \<and> road_token U (Some c) pre' m' post'
             \<longrightarrow> length pre \<le> length pre'"
      by blast
    have "\<forall>pre' m' post'. c # r = pre' @ m' @ post' \<and> road_token U before pre' m' post'
             \<longrightarrow> length (c # pre) \<le> length pre'"
    proof (intro allI impI)
      fix pre' m' post'
      assume a: "c # r = pre' @ m' @ post' \<and> road_token U before pre' m' post'"
      show "length (c # pre) \<le> length pre'"
      proof (cases pre')
        case Nil
        with a have "match_here U before (c # r) = Some m'"
          by (auto simp: match_here_iff)
        with None show ?thesis by simp
      next
        case (Cons c' pre'')
        with a have "r = pre'' @ m' @ post'" and "road_token U (Some c) pre'' m' post'"
          by (auto simp: road_token_Cons)
        with least have "length pre \<le> length pre''" by blast
        with Cons show ?thesis by simp
      qed
    qed
    with d tok show ?thesis
      by (intro exI [of _ "c # pre"] exI [of _ post]) (simp add: road_token_Cons)
  qed
qed

lemma collect_road_names_Inr:
  "collect_road_names U steps acc = Inr names \<Longrightarrow> length acc < 3 \<Longrightarrow>
     names = take 3 (acc @ road_matches U steps)"
proof (induction steps arbitrary: acc)
  case Nil
  then show ?case by (simp add: road_matches_def)
next
  case (Cons step rest)
  from Cons.prems(1) obtain instructions where
    i: "gm_html_instructions step = Some instructions"
    by (auto split: option.splits)
  show ?case
  proof (cases "re_search U instructions")
    case None
    with Cons.prems i have "collect_road_names U rest acc = Inr names" by simp
    from Cons.IH [OF this Cons.prems(2)] None i show ?thesis
      by (simp add: road_matches_def)
  next
    case (Some m)
    show ?thesis
    proof (cases "3 \<le> length (acc @ [m])")
      case True
      with Cons.prems i Some have "names = acc @ [m]" by simp
      moreover from True Cons.prems(2) have "length acc = 2" by simp
      ultimately show ?thesis using i Some by (simp add: road_matches_def)
    next
      case False
      with Cons.prems i Some have "collect_road_names U rest (acc @ [m]) = Inr names" by simp
      moreover from False have "length (acc @ [m]) < 3" by simp
      ultimately have "names = take 3 ((acc @ [m]) @ road_matches U rest)"
        by (rule Cons.IH)
      with i Some show ?thesis by (simp add: road_matches_def)
    qed
  qed
qed


text \<open>
  C9, as amended. The match in an instruction text is the leftmost road name that stands
  as a word of its own: one uppercase letter followed by one or more digits, with no word
  character directly before or after it; there is no match exactly when the text has no
  such name. The road names are the first three matches of the steps in step order, at
  most one per step; the description joins them with the arrow between spaces and is
  \<open>Local roads\<close> when there are none. The route field of every response of the car handler
  is this description of the steps of the first leg of the first route. The instructions
  \<open>Take exit onto A10\<close> and \<open>Continue on N1\<close> give \<open>A10\<close>, arrow, \<open>N1\<close>.
\<close>

theorem road_description:
  "(re_search U s = Some m \<longrightarrow>
      (\<exists>pre post. s = pre @ m @ post \<and> road_token U None pre m post
         \<and> (\<forall>pre' m' post'. s = pre' @ m' @ post' \<and> road_token U None pre' m' post'
               \<longrightarrow> length pre \<le> length pre')))
   \<and> (re_search U s = None \<longrightarrow>
        \<not> (\<exists>pre m' post. s = pre @ m' @ post \<and> road_token U None pre m' post))
   \<and> (collect_road_names U steps [] = Inr road_names \<longrightarrow>
        road_names = take 3 (road_matches U steps))
   \<and> (road_names \<noteq> [] \<longrightarrow> route_description road_names = join [32, 8594, 32] road_names)
   \<and> route_description [] = lit ''Local roads''
   \<and> (car_trip_response up U key n route = Inr response \<longrightarrow>
        (\<exists>directions_data steps' names.
           get_directions up (n + 1) (directions_url key route) = Response None directions_data
         \<and> directions_steps directions_data = Inr steps'
         \<and> collect_road_names U steps' [] = Inr names
         \<and> CarTripResponse_route response = route_description names))
   \<and> map_sum id route_description
       (collect_road_names ascii_db
          [\<lparr>gm_html_instructions = Some (lit ''Take exit onto A10'')\<rparr>,
           \<lparr>gm_html_instructions = Some (lit ''Continue on N1'')\<rparr>] [])
     = Inr (lit ''A10'' @ [32, 8594, 32] @ lit ''N1'')
   \<and> map_sum id route_description
       (collect_road_names ascii_db
          [\<lparr>gm_html_instructions = Some (lit ''Head north'')\<rparr>,
           \<lparr>gm_html_instructions = Some (lit ''Turn left'')\<rparr>] [])
     = Inr (lit ''Local roads'')"
proof (intro conjI impI)
  assume "re_search U s = Some m"
  then show "\<exists>pre post. s = pre @ m @ post \<and> road_token U None pre m post
         \<and> (\<forall>pre' m' post'. s = pre' @ m' @ post' \<and> road_token U None pre' m' post'
               \<longrightarrow> length pre \<le> length pre')"
    unfolding re_search_def by (rule search_from_Some)
next
  assume "re_search U s = None"
  then show "\<not> (\<exists>pre m' post. s = pre @ m' @ post \<and> road_token U None pre m' post)"
    unfolding re_search_def by (rule search_from_None)
next
  assume "collect_road_names U steps [] = Inr road_names"
  from collect_road_names_Inr [OF this] show "road_names = take 3 (road_matches U steps)"
    by simp
next
  assume "road_names \<noteq> []"
  then show "route_description road_names = join [32, 8594, 32] road_names"
    by (simp add: route_description_def arrow_def)
next
  show "route_description [] = lit ''Local roads''"
    by (simp add: route_description_def)
next
  assume "car_trip_response up U key n route = Inr response"
  from car_trip_response_Inr [OF this]
  show "\<exists>directions_data steps' names.
           get_directions up (n + 1) (directions_url key route) = Response None directions_data
         \<and> directions_steps directions_data = Inr steps'
         \<and> collect_road_names U steps' [] = Inr names
         \<and> CarTripResponse_route response = route_description names"
    by auto
next
  show "map_sum id route_description
       (collect_road_names ascii_db
          [\<lparr>gm_html_instructions = Some (lit ''Take exit onto A10'')\<rparr>,
           \<lparr>gm_html_instructions = Some (lit ''Continue on N1'')\<rparr>] [])
     = Inr (lit ''A10'' @ [32, 8594, 32] @ lit ''N1'')"
    by code_simp
next
  show "map_sum id route_description
       (collect_road_names ascii_db
          [\<lparr>gm_html_instructions = Some (lit ''Head north'')\<rparr>,
           \<lparr>gm_html_instructions = Some (lit ''Turn left'')\<rparr>] [])
     = Inr (lit ''Local roads'')"
    by code_simp
qed

theorem road_description_witness:
  "re_search ascii_db (lit ''Take exit onto A10'') = Some (lit ''A10'')
   \<and> (\<exists>pre post. lit ''Take exit onto A10'' = pre @ lit ''A10'' @ post
         \<and> road_token ascii_db None pre (lit ''A10'') post)"
proof -
  have h: "re_search ascii_db (lit ''Take exit onto A10'') = Some (lit ''A10'')"
    by code_simp
  with road_description [of ascii_db "lit ''Take exit onto A10''" "lit ''A10''"]
  show ?thesis by blast
qed

text \<open>
  In \<open>XA10\<close> the substring \<open>A10\<close> is an uppercase letter followed by digits, but the
  pattern of the handler asks for a word boundary before it: there is no match and the
  description is \<open>Local roads\<close>.
\<close>

theorem embedded_road_name_counterexample:
  "first_letter_digits ascii_db (lit ''XA10'') = Some (lit ''A10'')
   \<and> re_search ascii_db (lit ''XA10'') = None
   \<and> map_sum id route_description
       (collect_road_names ascii_db [\<lparr>gm_html_instructions = Some (lit ''XA10'')\<rparr>] [])
     = Inr (lit ''Local roads'')"
  by code_simp

subsection \<open>The fuel cost\<close>













subsection \<open>One response per route\<close>










end
